theory Spec2Isabelle
  imports
    Complex_Main
    "HOL-Library.Finite_Map"
    "HOL-Library.Char_ord"
    "HOL-Library.List_Lexorder"
begin

section \<open>Values of the interpreter and of the document store\<close>

text \<open>
  The handlers of \<^verbatim>\<open>app.py\<close> work on untyped data: the JSON body of a request and the
  fields of a stored document. Both are modelled by one datatype. \<open>PTime\<close> stands for a
  timestamp the store wrote (the argument is its time in seconds). A dict is a finite map,
  so two dicts with the same bindings are the same value whatever the order of their keys.
  Floating-point numbers are left out.

  A string is a list of characters. A \<open>char\<close> below 128 is that ASCII character; a
  \<open>char\<close> from 128 on stands for one character beyond ASCII. Which character it is does
  not matter to the handlers except through the properties of the interpreter's Unicode
  tables, which the environment below supplies. So a text has one \<open>char\<close> for each of its
  code points, and the texts that can be told apart here are those with at most 128
  different characters beyond ASCII.
\<close>

datatype pyval =
    PNone
  | PBool bool
  | PInt int
  | PStr string
  | PTime nat
  | PList "pyval list"
  | PDict "(string, pyval) fmap"

type_synonym doc = "(string, pyval) fmap"

text \<open>The exceptions a handler body can raise; every handler catches them and answers 500.\<close>

datatype py_exn = AttributeError | TypeError | ValueError | KeyError | BadRequest

text \<open>
  A handler returns \<open>jsonify(body), code\<close>; an exception caught by its
  \<^verbatim>\<open>except Exception\<close> clause is \<open>Inl\<close>, answered with status 500 and the
  exception's text.
\<close>

type_synonym response = "pyval \<times> nat"
type_synonym outcome = "py_exn + response"

definition status_of :: "outcome \<Rightarrow> nat" where
  "status_of r = (case r of Inl e \<Rightarrow> 500 | Inr (body, code) \<Rightarrow> code)"

definition json_obj :: "(string \<times> pyval) list \<Rightarrow> pyval" where
  "json_obj kvs = PDict (fmap_of_list kvs)"

definition error_body :: "string \<Rightarrow> pyval" where
  "error_body msg = json_obj [(''error'', PStr msg)]"

subsection \<open>Truth value, equality, \<open>str\<close>\<close>

fun truthy :: "pyval \<Rightarrow> bool" where
  "truthy PNone = False"
| "truthy (PBool b) = b"
| "truthy (PInt i) = (i \<noteq> 0)"
| "truthy (PStr s) = (s \<noteq> [])"
| "truthy (PTime t) = True"
| "truthy (PList xs) = (xs \<noteq> [])"
| "truthy (PDict m) = (m \<noteq> fmempty)"

text \<open>
  Python's \<open>==\<close> is structural except that \<open>True == 1\<close> and \<open>False == 0\<close>, also inside
  lists and dicts: two values are equal when they agree after every boolean is read as
  an integer.
\<close>

primrec bool_as_int :: "pyval \<Rightarrow> pyval" where
  "bool_as_int PNone = PNone"
| "bool_as_int (PBool b) = PInt (if b then 1 else 0)"
| "bool_as_int (PInt i) = PInt i"
| "bool_as_int (PStr s) = PStr s"
| "bool_as_int (PTime t) = PTime t"
| "bool_as_int (PList xs) = PList (map bool_as_int xs)"
| "bool_as_int (PDict m) = PDict (fmmap bool_as_int m)"

definition py_eq :: "pyval \<Rightarrow> pyval \<Rightarrow> bool" where
  "py_eq a b = (bool_as_int a = bool_as_int b)"

definition digit_char :: "nat \<Rightarrow> char" where
  "digit_char n = ''0123456789'' ! (n mod 10)"

fun str_of_nat :: "nat \<Rightarrow> string" where
  "str_of_nat n =
     (if n < 10 then [digit_char n] else str_of_nat (n div 10) @ [digit_char (n mod 10)])"

definition str_of_int :: "int \<Rightarrow> string" where
  "str_of_int i = (if i < 0 then CHR ''-'' # str_of_nat (nat (- i)) else str_of_nat (nat i))"

text \<open>
  What the program uses from outside the repository is a parameter of the model:
  \<open>repr\<close> is Python's \<open>str\<close> on lists, dicts and timestamps, \<open>checkpw\<close> and \<open>hashpw\<close>
  are the bcrypt calls (the salt of \<open>hashpw\<close> is drawn inside it), \<open>new_id\<close> is the id
  the store gives the next added document, \<open>unix_now\<close> and \<open>iso_now\<close> are
  \<^verbatim>\<open>datetime.utcnow()\<close> as a unix time and in ISO format, \<open>server_time\<close> is the
  value the store writes for \<^verbatim>\<open>SERVER_TIMESTAMP\<close>, \<open>isoformat\<close> formats a stored
  timestamp, and \<open>order_by_desc f\<close> is the store's \<^verbatim>\<open>order_by(f, DESCENDING)\<close> on
  the documents a query selects.

  Of the interpreter: \<open>max_str_digits\<close> is \<^verbatim>\<open>sys.get_int_max_str_digits()\<close>, the
  number of digits beyond which \<open>int\<close> refuses a text (4300 by default from Python 3.11
  on, and never set between 1 and 639), 0 when there is no such limit. The same limit
  keeps longer integers out of a JSON body, and the store holds 64-bit integers, so
  \<open>str\<close> meets no integer it would refuse to print. For a character beyond ASCII,
  \<open>wide_class\<close> tells whether it is whitespace (\<open>WBlank\<close>), a decimal digit (\<open>WDigit\<close>
  with its value, read modulo ten) or neither; \<open>wide_lower\<close> and \<open>wide_upper\<close> are
  \<open>str.lower\<close> and \<open>str.upper\<close> on a text that is not all ASCII. \<open>icon_members\<close> and \<open>icon_party\<close> are the two icons of
  the notification feed (U+1F465 and U+1F389) as texts of this alphabet.
\<close>

datatype wide_class = WBlank | WDigit nat | WOther

record env =
  repr :: "pyval \<Rightarrow> string"
  checkpw :: "string \<Rightarrow> string \<Rightarrow> bool"
  hashpw :: "string \<Rightarrow> string"
  new_id :: string
  unix_now :: nat
  iso_now :: string
  server_time :: nat
  isoformat :: "nat \<Rightarrow> string"
  order_by_desc :: "string \<Rightarrow> (string \<times> (string, pyval) fmap) list \<Rightarrow> (string \<times> (string, pyval) fmap) list"
  max_str_digits :: nat
  wide_class :: "char \<Rightarrow> wide_class"
  wide_lower :: "string \<Rightarrow> string"
  wide_upper :: "string \<Rightarrow> string"
  icon_members :: string
  icon_party :: string

fun py_str :: "env \<Rightarrow> pyval \<Rightarrow> string" where
  "py_str E PNone = ''None''"
| "py_str E (PBool b) = (if b then ''True'' else ''False'')"
| "py_str E (PInt i) = str_of_int i"
| "py_str E (PStr s) = s"
| "py_str E v = repr E v"

subsection \<open>Dicts and collections\<close>

text \<open>\<open>d.get(k, default)\<close> on a dict; \<open>d.get(k)\<close> is \<open>dict_get d k PNone\<close>.\<close>

definition dict_get :: "doc \<Rightarrow> string \<Rightarrow> pyval \<Rightarrow> pyval" where
  "dict_get d k dflt = (case fmlookup d k of None \<Rightarrow> dflt | Some v \<Rightarrow> v)"

text \<open>
  A collection is the list of its documents, each with its id, in the order in which the
  store streams them. \<open>document(id).get()\<close> is \<open>map_of\<close>; \<open>document(id).update(...)\<close>
  rewrites the document with that id. The id given to \<open>document\<close> must be a string.
\<close>

type_synonym collection = "(string \<times> doc) list"

record store =
  users :: collection
  groups :: collection
  questions :: collection
  discussions :: collection

fun coll_update :: "string \<Rightarrow> (doc \<Rightarrow> doc) \<Rightarrow> collection \<Rightarrow> collection" where
  "coll_update k f [] = []"
| "coll_update k f ((i, d) # rest) =
     (if i = k then (i, f d) # rest else (i, d) # coll_update k f rest)"

fun is_dict :: "pyval \<Rightarrow> bool" where
  "is_dict (PDict m) = True"
| "is_dict v = False"

section \<open>Questions and answers\<close>

subsection \<open>\<open>accept_answer\<close>\<close>

text \<open>
  The loop \<^verbatim>\<open>for answer in answers\<close> of \<open>accept_answer\<close>. An element that is not a
  dict has no \<open>get\<close>, and the loop raises before anything is written.
\<close>

fun accept_loop :: "pyval \<Rightarrow> pyval list \<Rightarrow> py_exn + pyval list" where
  "accept_loop answer_id [] = Inr []"
| "accept_loop answer_id (PDict answer # rest) =
     (case accept_loop answer_id rest of
        Inl e \<Rightarrow> Inl e
      | Inr rest' \<Rightarrow>
          Inr ((if py_eq (dict_get answer ''answerId'' PNone) answer_id
                then PDict (fmupd ''accepted'' (PBool True) answer)
                else PDict (fmupd ''accepted'' (PBool False) answer)) # rest'))"
| "accept_loop answer_id (v # rest) = Inl AttributeError"

text \<open>
  The value of the \<open>answers\<close> field need not be a list. Iterating over an empty string
  or an empty dict does nothing; over a non-empty one the first element is a string,
  which has no \<open>get\<close>; anything else is not iterable.
\<close>

definition accept_all :: "pyval \<Rightarrow> pyval \<Rightarrow> py_exn + pyval" where
  "accept_all answer_id answers =
     (case answers of
        PList xs \<Rightarrow> (case accept_loop answer_id xs of Inl e \<Rightarrow> Inl e | Inr ys \<Rightarrow> Inr (PList ys))
      | PStr s \<Rightarrow> (if s = [] then Inr answers else Inl AttributeError)
      | PDict m \<Rightarrow> (if m = fmempty then Inr answers else Inl AttributeError)
      | _ \<Rightarrow> Inl TypeError)"

definition accept_answer :: "env \<Rightarrow> store \<Rightarrow> pyval \<Rightarrow> outcome \<times> store" where
  "accept_answer E st data =
     (case data of
        PDict d \<Rightarrow>
          (let question_id = dict_get d ''questionId'' PNone;
               answer_id = dict_get d ''answerId'' PNone;
               user_id = py_str E (dict_get d ''userId'' PNone)
           in if \<not> (truthy question_id \<and> truthy answer_id \<and> user_id \<noteq> [])
              then (Inr (error_body ''Question ID, Answer ID, and User ID required'', 400), st)
              else
                (case question_id of
                   PStr qid \<Rightarrow>
                     (case map_of (questions st) qid of
                        None \<Rightarrow> (Inr (error_body ''Question not found'', 404), st)
                      | Some question \<Rightarrow>
                          if py_str E (dict_get question ''userId'' PNone) \<noteq> user_id
                          then (Inr (error_body
                                  ''Unauthorized: You can only accept answers for your questions'',
                                  403), st)
                          else
                            (case accept_all answer_id (dict_get question ''answers'' (PList [])) of
                               Inl e \<Rightarrow> (Inl e, st)
                             | Inr answers \<Rightarrow>
                                 (Inr (json_obj [(''success'', PBool True),
                                                 (''message'', PStr ''Answer accepted!'')], 200),
                                  st\<lparr>questions :=
                                       coll_update qid (fmupd ''answers'' answers) (questions st)\<rparr>)))
                 | _ \<Rightarrow> (Inl TypeError, st)))
      | _ \<Rightarrow> (Inl AttributeError, st))"

subsection \<open>\<open>vote_answer\<close>\<close>




definition apostrophe :: string where
  "apostrophe = [CHR 0x27]"



section \<open>Groups\<close>

subsection \<open>The store's array union\<close>

text \<open>
  \<^verbatim>\<open>ArrayUnion(es)\<close> appends, in order, each element that the array does not hold
  yet. A field that is absent or not an array counts as the empty array.
\<close>

fun union_list :: "pyval list \<Rightarrow> pyval list \<Rightarrow> pyval list" where
  "union_list xs [] = xs"
| "union_list xs (e # es) = union_list (if e \<in> set xs then xs else xs @ [e]) es"

definition array_union :: "string \<Rightarrow> pyval list \<Rightarrow> doc \<Rightarrow> doc" where
  "array_union field es d =
     fmupd field
       (case fmlookup d field of
          Some (PList xs) \<Rightarrow> PList (union_list xs es)
        | _ \<Rightarrow> PList (union_list [] es)) d"

subsection \<open>\<open>join_group_api\<close>\<close>

definition join_group_api :: "env \<Rightarrow> store \<Rightarrow> pyval \<Rightarrow> outcome \<times> store" where
  "join_group_api E st data =
     (case data of
        PDict d \<Rightarrow>
          (let user_id = py_str E (dict_get d ''user_id'' PNone);
               group_id = dict_get d ''group_id'' PNone
           in if user_id = [] \<or> \<not> truthy group_id
              then (Inr (error_body ''User ID and Group ID required'', 400), st)
              else
                (case group_id of
                   PStr gid \<Rightarrow>
                     (case map_of (groups st) gid of
                        None \<Rightarrow> (Inr (error_body ''Group not found'', 404), st)
                      | Some grp \<Rightarrow>
                          (Inr (json_obj [(''success'', PBool True),
                                          (''message'', PStr ''Joined successfully!'')], 200),
                           st\<lparr>groups :=
                                coll_update gid (array_union ''members'' [PStr user_id])
                                  (groups st)\<rparr>))
                 | _ \<Rightarrow> (Inl TypeError, st)))
      | _ \<Rightarrow> (Inl AttributeError, st))"

subsection \<open>Iteration and text helpers\<close>

text \<open>
  \<^verbatim>\<open>for x in v\<close>: a list gives its elements, a string its characters, a dict its keys
  (taken in sorted order here); nothing else can be iterated.
\<close>

definition py_iter :: "pyval \<Rightarrow> py_exn + pyval list" where
  "py_iter v =
     (case v of
        PList xs \<Rightarrow> Inr xs
      | PStr s \<Rightarrow> Inr (map (\<lambda>c. PStr [c]) s)
      | PDict m \<Rightarrow> Inr (map PStr (sorted_list_of_fset (fmdom m)))
      | _ \<Rightarrow> Inl TypeError)"

text \<open>
  Character classes. On ASCII they are Python's; beyond ASCII they are the environment's.
  A digit is what \<^verbatim>\<open>\d\<close> of \<open>re\<close> matches in a string pattern and what \<open>int\<close> reads: any
  Unicode decimal digit. Whitespace is what \<open>str.strip\<close> removes: on ASCII the blank,
  the controls 0x09 to 0x0D and the separators 0x1C to 0x1F.
\<close>

definition is_ascii :: "char \<Rightarrow> bool" where
  "is_ascii c = (of_char c < (128::nat))"

definition ascii_digit :: "char \<Rightarrow> bool" where
  "ascii_digit c = (CHR ''0'' \<le> c \<and> c \<le> CHR ''9'')"

definition is_digit :: "env \<Rightarrow> char \<Rightarrow> bool" where
  "is_digit E c =
     (if is_ascii c then ascii_digit c
      else (case wide_class E c of WDigit d \<Rightarrow> True | _ \<Rightarrow> False))"

definition digit_val :: "env \<Rightarrow> char \<Rightarrow> nat" where
  "digit_val E c =
     (if is_ascii c then of_char c - 48
      else (case wide_class E c of WDigit d \<Rightarrow> d mod 10 | _ \<Rightarrow> 0))"

definition decimal :: "env \<Rightarrow> string \<Rightarrow> nat" where
  "decimal E ds = foldl (\<lambda>n c. 10 * n + digit_val E c) 0 ds"

definition is_space :: "env \<Rightarrow> char \<Rightarrow> bool" where
  "is_space E c =
     (if is_ascii c
      then c \<in> set [CHR 0x20, CHR 0x09, CHR 0x0A, CHR 0x0B, CHR 0x0C, CHR 0x0D,
                      CHR 0x1C, CHR 0x1D, CHR 0x1E, CHR 0x1F]
      else wide_class E c = WBlank)"

definition py_strip :: "env \<Rightarrow> string \<Rightarrow> string" where
  "py_strip E s = rev (dropWhile (is_space E) (rev (dropWhile (is_space E) s)))"

definition lower_char :: "char \<Rightarrow> char" where
  "lower_char c = (if CHR ''A'' \<le> c \<and> c \<le> CHR ''Z'' then char_of (of_char c + (32::nat)) else c)"

definition upper_char :: "char \<Rightarrow> char" where
  "upper_char c = (if CHR ''a'' \<le> c \<and> c \<le> CHR ''z'' then char_of (of_char c - (32::nat)) else c)"

definition py_lower :: "env \<Rightarrow> string \<Rightarrow> string" where
  "py_lower E s = (if list_all is_ascii s then map lower_char s else wide_lower E s)"

definition py_upper :: "env \<Rightarrow> string \<Rightarrow> string" where
  "py_upper E s = (if list_all is_ascii s then map upper_char s else wide_upper E s)"

text \<open>
  \<open>int(s)\<close> on a string. A text that is not all ASCII is first rewritten: a character from
  127 on becomes a blank when it is whitespace, the ASCII digit of its value when it is a
  decimal digit, and a question mark otherwise. Then \<open>int\<close> reads an ASCII text: the
  whitespace of C around it (blank, tab, line feed, vertical tab, form feed, carriage
  return), an optional sign, and decimal digits that single underscores may separate.
  A text with more than \<open>max_str_digits\<close> digits is refused when that limit is on.
\<close>

definition int_text :: "env \<Rightarrow> string \<Rightarrow> string" where
  "int_text E s =
     (if list_all is_ascii s then s
      else map (\<lambda>c. if of_char c < (127::nat) then c
                     else if is_space E c then CHR 0x20
                     else if is_digit E c then digit_char (digit_val E c)
                     else CHR ''?'') s)"

definition c_space :: "char \<Rightarrow> bool" where
  "c_space c = (c \<in> set [CHR 0x20, CHR 0x09, CHR 0x0A, CHR 0x0B, CHR 0x0C, CHR 0x0D])"

fun digits_ok :: "string \<Rightarrow> bool" where
  "digits_ok [] = False"
| "digits_ok [c] = ascii_digit c"
| "digits_ok (c # d # r) =
     (ascii_digit c \<and> (if d = CHR ''_'' then digits_ok r else digits_ok (d # r)))"

definition too_many_digits :: "env \<Rightarrow> nat \<Rightarrow> bool" where
  "too_many_digits E n = (0 < max_str_digits E \<and> max_str_digits E < n)"

definition int_of_text :: "env \<Rightarrow> string \<Rightarrow> int option" where
  "int_of_text E s =
     (let t = rev (dropWhile c_space (rev (dropWhile c_space (int_text E s))));
          negative = (t \<noteq> [] \<and> hd t = CHR ''-'');
          body = (if t \<noteq> [] \<and> (hd t = CHR ''-'' \<or> hd t = CHR ''+'') then tl t else t);
          digits = filter ascii_digit body
      in if digits_ok body \<and> \<not> too_many_digits E (length digits)
         then Some ((if negative then - 1 else 1) * int (decimal E digits))
         else None)"

text \<open>\<open>int(v)\<close> on any value.\<close>

definition py_int :: "env \<Rightarrow> pyval \<Rightarrow> py_exn + int" where
  "py_int E v =
     (case v of
        PInt i \<Rightarrow> Inr i
      | PBool b \<Rightarrow> Inr (if b then 1 else 0)
      | PStr s \<Rightarrow> (case int_of_text E s of None \<Rightarrow> Inl ValueError | Some i \<Rightarrow> Inr i)
      | _ \<Rightarrow> Inl TypeError)"

text \<open>
  \<^verbatim>\<open>v.isoformat() if v else datetime.utcnow().isoformat()\<close>: only a timestamp has
  \<open>isoformat\<close>.
\<close>

definition iso_or_now :: "env \<Rightarrow> pyval \<Rightarrow> py_exn + string" where
  "iso_or_now E v =
     (if truthy v then (case v of PTime t \<Rightarrow> Inr (isoformat E t) | _ \<Rightarrow> Inl AttributeError)
      else Inr (iso_now E))"

text \<open>Running a list of computations in order, stopping at the first exception.\<close>

fun collect :: "('a \<Rightarrow> py_exn + 'b) \<Rightarrow> 'a list \<Rightarrow> py_exn + 'b list" where
  "collect f [] = Inr []"
| "collect f (x # xs) =
     (case f x of
        Inl e \<Rightarrow> Inl e
      | Inr y \<Rightarrow> (case collect f xs of Inl e \<Rightarrow> Inl e | Inr ys \<Rightarrow> Inr (y # ys)))"


text \<open>The store's filters \<^verbatim>\<open>where(f, '==', v)\<close> and \<^verbatim>\<open>where(f, 'array_contains', v)\<close>.\<close>

definition where_eq :: "string \<Rightarrow> pyval \<Rightarrow> collection \<Rightarrow> collection" where
  "where_eq field v c = filter (\<lambda>(i, d). fmlookup d field = Some v) c"

definition array_contains :: "string \<Rightarrow> pyval \<Rightarrow> collection \<Rightarrow> collection" where
  "array_contains field v c =
     filter (\<lambda>(i, d). case fmlookup d field of Some (PList xs) \<Rightarrow> v \<in> set xs | _ \<Rightarrow> False) c"

text \<open>\<open>request.args.get(k, default)\<close>: a query parameter is a string.\<close>

definition arg_get :: "(string, string) fmap \<Rightarrow> string \<Rightarrow> pyval \<Rightarrow> pyval" where
  "arg_get args k dflt = (case fmlookup args k of None \<Rightarrow> dflt | Some s \<Rightarrow> PStr s)"

subsection \<open>\<open>get_groups\<close>\<close>

text \<open>\<^verbatim>\<open>re.search(r'(\d+)', s)\<close>: the first maximal run of digits, empty when there is none.\<close>

definition first_digit_run :: "env \<Rightarrow> string \<Rightarrow> string" where
  "first_digit_run E s = takeWhile (is_digit E) (dropWhile (\<lambda>c. \<not> is_digit E c) s)"

text \<open>
  \<open>maxsize\<close> as \<open>get_groups\<close> computes it from \<open>preferred_team_size\<close>. The \<open>int\<close> of
  the digit run is outside the inner \<^verbatim>\<open>try\<close>: when it fails, as it does on a run
  longer than \<open>max_str_digits\<close>, the handler raises. The bare \<^verbatim>\<open>except\<close> around
  \<open>int(preferredteamsize)\<close> turns every failure into \<open>None\<close>.
\<close>

definition team_size :: "env \<Rightarrow> pyval \<Rightarrow> py_exn + pyval" where
  "team_size E preferredteamsize =
     (if truthy preferredteamsize
      then (let run = first_digit_run E (py_str E preferredteamsize)
            in if run \<noteq> []
               then (case int_of_text E run of
                       None \<Rightarrow> Inl ValueError
                     | Some i \<Rightarrow> Inr (PInt i))
               else Inr (case py_int E preferredteamsize of Inl e \<Rightarrow> PNone | Inr i \<Rightarrow> PInt i))
      else Inr PNone)"

text \<open>\<^verbatim>\<open>maxsize and len(members) >= maxsize\<close>; \<open>maxsize\<close> is \<open>None\<close> or an integer.\<close>

definition is_full :: "pyval \<Rightarrow> nat \<Rightarrow> bool" where
  "is_full maxsize member_count =
     (truthy maxsize \<and> (case maxsize of PInt n \<Rightarrow> int member_count \<ge> n | _ \<Rightarrow> False))"

definition group_entry :: "env \<Rightarrow> string \<Rightarrow> string \<times> doc \<Rightarrow> py_exn + pyval" where
  "group_entry E userid gd =
     (case gd of (group_id, grp) \<Rightarrow>
        (case py_iter (dict_get grp ''members'' (PList [])) of
           Inl e \<Rightarrow> Inl e
         | Inr ms \<Rightarrow>
             (let members = map (py_str E) ms;
                  preferredteamsize = dict_get grp ''preferred_team_size'' PNone
              in case team_size E preferredteamsize of
                   Inl e \<Rightarrow> Inl e
                 | Inr maxsize \<Rightarrow>
              (let isfull = is_full maxsize (length members);
                  ismember = (if userid \<noteq> [] then userid \<in> set members else False);
                  projectname0 = dict_get grp ''project_name'' PNone;
                  projectname =
                    (if \<not> truthy projectname0 \<or> py_strip E (py_str E projectname0) = []
                     then PStr ''Unnamed Group'' else projectname0)
              in case iso_or_now E (dict_get grp ''createdAt'' PNone) of
                   Inl e \<Rightarrow> Inl e
                 | Inr created \<Rightarrow>
                     Inr (json_obj
                       [(''groupId'', PStr group_id),
                        (''creatoruserid'', PStr (py_str E (dict_get grp ''creatoruserid'' PNone))),
                        (''members'', PList (map PStr members)),
                        (''memberCount'', PInt (int (length members))),
                        (''maxMembers'', maxsize),
                        (''isFull'', PBool isfull),
                        (''isMember'', PBool ismember),
                        (''preferredteamsize'', preferredteamsize),
                        (''projectname'', projectname),
                        (''descriptionobjective'', dict_get grp ''description_objective'' (PStr [])),
                        (''projecttimeline'', dict_get grp ''project_timeline'' (PStr [])),
                        (''requiredskills'', dict_get grp ''required_skills'' (PList [])),
                        (''createdAt'', PStr created)])))))"

text \<open>
  The request of \<open>get_groups\<close>: \<open>is_post\<close> is \<^verbatim>\<open>request.method == 'POST'\<close>,
  \<open>json_body\<close> is \<^verbatim>\<open>request.json\<close>, \<open>None\<close> when the body is not JSON and reading it
  raises.
\<close>

record group_request =
  is_post :: bool
  json_body :: "pyval option"
  query_args :: "(string, string) fmap"

definition get_groups :: "env \<Rightarrow> store \<Rightarrow> group_request \<Rightarrow> outcome" where
  "get_groups E st req =
     (case (if is_post req
            then (case json_body req of
                    None \<Rightarrow> Inl BadRequest
                  | Some data \<Rightarrow>
                      if truthy data
                      then (case data of
                              PDict d \<Rightarrow> Inr (py_str E (dict_get d ''userId'' (PStr [])))
                            | _ \<Rightarrow> Inl AttributeError)
                      else Inr (py_str E (arg_get (query_args req) ''userId'' (PStr []))))
            else Inr (py_str E (arg_get (query_args req) ''userId'' (PStr [])))) of
        Inl e \<Rightarrow> Inl e
      | Inr userid \<Rightarrow>
          (case collect (group_entry E userid) (order_by_desc E ''createdAt'' (groups st)) of
             Inl e \<Rightarrow> Inl e
           | Inr groupslist \<Rightarrow>
               Inr (json_obj [(''success'', PBool True), (''groups'', PList groupslist)], 200)))"

section \<open>Discussions\<close>

subsection \<open>\<open>send_message\<close>\<close>

text \<open>The part of \<open>send_message\<close> after the membership gate: the message and the update.\<close>

definition post_message :: "env \<Rightarrow> store \<Rightarrow> string \<Rightarrow> doc \<Rightarrow> string \<Rightarrow> outcome \<times> store" where
  "post_message E st did d user_id =
     (let message = json_obj
            [(''messageId'', PStr (did @ ''_msg_'' @ str_of_nat (unix_now E))),
             (''userId'', PStr user_id),
             (''userName'', dict_get d ''userName'' PNone),
             (''userPhoto'', dict_get d ''userPhoto'' (PStr [])),
             (''content'', dict_get d ''content'' PNone),
             (''timestamp'', PStr (iso_now E))]
      in (Inr (json_obj [(''success'', PBool True)], 200),
          st\<lparr>discussions :=
               coll_update did
                 (\<lambda>doc. array_union ''participants'' [PStr user_id]
                          (fmupd ''lastMessageTime'' (PTime (server_time E))
                            (fmupd ''lastMessage'' (dict_get d ''content'' PNone)
                              (array_union ''messages'' [message] doc))))
                 (discussions st)\<rparr>))"

definition send_message :: "env \<Rightarrow> store \<Rightarrow> pyval \<Rightarrow> outcome \<times> store" where
  "send_message E st data =
     (case data of
        PDict d \<Rightarrow>
          (let discussion_id = dict_get d ''discussionId'' PNone;
               user_id = py_str E (dict_get d ''userId'' PNone)
           in if \<not> truthy discussion_id \<or> user_id = []
              then (Inr (error_body ''Discussion ID and User ID required'', 400), st)
              else
                (case discussion_id of
                   PStr did \<Rightarrow>
                     (case map_of (discussions st) did of
                        None \<Rightarrow> (Inr (error_body ''Discussion not found'', 404), st)
                      | Some discussion \<Rightarrow>
                          (let group_id = dict_get discussion ''groupId'' PNone
                           in if truthy group_id
                              then
                                (case group_id of
                                   PStr gid \<Rightarrow>
                                     (case map_of (groups st) gid of
                                        None \<Rightarrow> (Inr (error_body ''Group not found'', 403), st)
                                      | Some grp \<Rightarrow>
                                          (case py_iter (dict_get grp ''members'' (PList [])) of
                                             Inl e \<Rightarrow> (Inl e, st)
                                           | Inr ms \<Rightarrow>
                                               if user_id \<notin> set (map (py_str E) ms)
                                               then (Inr (error_body ''Access denied'', 403), st)
                                               else post_message E st did d user_id))
                                 | _ \<Rightarrow> (Inl TypeError, st))
                              else post_message E st did d user_id))
                 | _ \<Rightarrow> (Inl TypeError, st)))
      | _ \<Rightarrow> (Inl AttributeError, st))"


section \<open>Notifications\<close>

text \<open>\<^verbatim>\<open>project_name[0:2].upper() if project_name else 'UG'\<close>: only a string can be sliced and
  upper-cased.\<close>

definition avatar_of :: "env \<Rightarrow> pyval \<Rightarrow> py_exn + string" where
  "avatar_of E project_name =
     (if truthy project_name
      then (case project_name of
              PStr s \<Rightarrow> Inr (py_upper E (take 2 s))
            | PList xs \<Rightarrow> Inl AttributeError
            | _ \<Rightarrow> Inl TypeError)
      else Inr ''UG'')"

definition py_len :: "pyval \<Rightarrow> py_exn + nat" where
  "py_len v =
     (case v of
        PList xs \<Rightarrow> Inr (length xs)
      | PStr s \<Rightarrow> Inr (length s)
      | PDict m \<Rightarrow> Inr (fcard (fmdom m))
      | _ \<Rightarrow> Inl TypeError)"

text \<open>The items one group contributes to the feed.\<close>

definition group_notifications :: "env \<Rightarrow> string \<Rightarrow> string \<times> doc \<Rightarrow> py_exn + pyval list" where
  "group_notifications E user_id gd =
     (case gd of (group_id, grp) \<Rightarrow>
        (let project_name = dict_get grp ''project_name'' (PStr ''Unnamed Group'')
         in case iso_or_now E (dict_get grp ''createdAt'' PNone) of
              Inl e \<Rightarrow> Inl e
            | Inr created_at_iso \<Rightarrow>
                (case avatar_of E project_name of
                   Inl e \<Rightarrow> Inl e
                 | Inr avatar \<Rightarrow>
                     (let joined = json_obj
                            [(''id'', PStr (''group-'' @ group_id)),
                             (''type'', PStr ''group''),
                             (''name'', project_name),
                             (''avatar'', PStr avatar),
                             (''time'', PStr created_at_iso),
                             (''content'', PStr (''You joined the group '' @ apostrophe
                                @ py_str E project_name @ apostrophe @ ''. Start collaborating!'')),
                             (''unread'', PBool True),
                             (''actionUrl'', PStr (''mainpage.html#group-'' @ group_id)),
                             (''createdAt'', PStr created_at_iso)]
                      in if py_str E (dict_get grp ''creatoruserid'' PNone) = user_id
                         then (case py_len (dict_get grp ''members'' (PList [])) of
                                 Inl e \<Rightarrow> Inl e
                               | Inr member_count \<Rightarrow>
                                   if member_count > 1
                                   then Inr [joined, json_obj
                                     [(''id'', PStr (''member-'' @ group_id)),
                                      (''type'', PStr ''activity''),
                                      (''name'', PStr ''New Member Alert''),
                                      (''avatar'', PStr (icon_members E)),
                                      (''time'', PStr created_at_iso),
                                      (''content'', PStr (''Your group '' @ apostrophe
                                         @ py_str E project_name @ apostrophe @ '' now has ''
                                         @ str_of_nat member_count @ '' member''
                                         @ (if member_count > 1 then ''s'' else []) @ ''!'')),
                                      (''unread'', PBool True),
                                      (''actionUrl'', PStr (''mainpage.html#group-'' @ group_id)),
                                      (''createdAt'', PStr created_at_iso)]]
                                   else Inr [joined])
                         else Inr [joined]))))"

definition platform_update :: "env \<Rightarrow> pyval" where
  "platform_update E = json_obj
     [(''id'', PStr ''system-qa-update''),
      (''type'', PStr ''activity''),
      (''name'', PStr ''Platform Update''),
      (''avatar'', PStr (icon_party E)),
      (''time'', PStr (iso_now E)),
      (''content'', PStr ''New Q&A features are now live! Try asking your first question.''),
      (''unread'', PBool True),
      (''actionUrl'', PStr ''qa.html''),
      (''createdAt'', PStr (iso_now E))]"

definition get_notifications :: "env \<Rightarrow> store \<Rightarrow> (string, string) fmap \<Rightarrow> outcome" where
  "get_notifications E st args =
     (let user_id = py_str E (arg_get args ''userId'' PNone)
      in if user_id = []
         then Inr (json_obj [(''success'', PBool False), (''error'', PStr ''User ID required'')], 400)
         else (case collect (group_notifications E user_id)
                      (array_contains ''members'' (PStr user_id) (groups st)) of
                 Inl e \<Rightarrow> Inl e
               | Inr items \<Rightarrow>
                   Inr (json_obj [(''success'', PBool True),
                                  (''notifications'', PList (concat items @ [platform_update E]))],
                        200)))"

text \<open>The sibling handler \<open>get_my_groups\<close>, which reads the same parameter.\<close>

definition get_my_groups :: "env \<Rightarrow> store \<Rightarrow> (string, string) fmap \<Rightarrow> outcome" where
  "get_my_groups E st args =
     (let user_id = py_str E (arg_get args ''userId'' PNone)
      in if user_id = [] \<or> user_id = ''None''
         then Inr (error_body ''User ID required'', 400)
         else Inr (json_obj
                [(''success'', PBool True),
                 (''groups'', PList (map (\<lambda>(group_id, grp).
                     json_obj [(''groupId'', PStr group_id),
                               (''groupName'', dict_get grp ''project_name'' (PStr ''Unnamed Group''))])
                   (array_contains ''members'' (PStr user_id) (groups st))))], 200))"

section \<open>Accounts\<close>

subsection \<open>\<open>signup\<close>\<close>

definition default_bio :: string where
  "default_bio = ''Passionate student focused on learning and building innovative projects.''"

text \<open>
  \<open>hash_password\<close> encodes the password first, so a password that is not a string
  raises. The new document is put at the end of the collection; where the store streams
  it is the store's matter.
\<close>

definition signup :: "env \<Rightarrow> store \<Rightarrow> pyval \<Rightarrow> outcome \<times> store" where
  "signup E st data =
     (case data of
        PDict d \<Rightarrow>
          (let email = dict_get d ''email'' PNone;
               password = dict_get d ''password'' PNone;
               fullName = dict_get d ''fullName'' PNone;
               university = dict_get d ''university'' PNone;
               branch = dict_get d ''branch'' PNone;
               academicYear = dict_get d ''academicYear'' PNone;
               skills = dict_get d ''skills'' (PList [])
           in if \<not> (truthy email \<and> truthy password \<and> truthy fullName \<and> truthy university
                     \<and> truthy branch \<and> truthy academicYear)
              then (Inr (error_body ''All fields except skills are required'', 400), st)
              else if length (take 1 (where_eq ''email'' email (users st))) > 0
              then (Inr (error_body ''User already exists'', 409), st)
              else
                (case password of
                   PStr pw \<Rightarrow>
                     (let pw_hash = hashpw E pw;
                          user_data = fmap_of_list
                            [(''email'', email),
                             (''password'', PStr pw_hash),
                             (''fullName'', fullName),
                             (''university'', university),
                             (''branch'', branch),
                             (''academicYear'', academicYear),
                             (''skills'', skills),
                             (''profilePhotoUrl'', PStr []),
                             (''coverPhotoUrl'', PStr []),
                             (''bio'', PStr default_bio),
                             (''createdAt'', PTime (server_time E))];
                          user_id = new_id E
                      in (Inr (json_obj
                            [(''success'', PBool True),
                             (''message'', PStr ''Account created successfully!''),
                             (''user'', json_obj
                                [(''id'', PStr user_id),
                                 (''email'', email),
                                 (''fullName'', fullName),
                                 (''university'', university),
                                 (''branch'', branch),
                                 (''academicYear'', academicYear),
                                 (''skills'', skills),
                                 (''profilePhotoUrl'', PStr []),
                                 (''coverPhotoUrl'', PStr []),
                                 (''bio'', PStr default_bio)])], 200),
                          st\<lparr>users := users st @ [(user_id, user_data)]\<rparr>))
                 | _ \<Rightarrow> (Inl AttributeError, st)))
      | _ \<Rightarrow> (Inl AttributeError, st))"

subsection \<open>\<open>login_api\<close>\<close>

text \<open>
  \<open>check_password\<close> catches every exception of the encoding and of bcrypt and answers
  \<open>False\<close>; \<open>checkpw\<close> stands for the comparison bcrypt makes on two strings.
\<close>

definition check_password :: "env \<Rightarrow> pyval \<Rightarrow> pyval \<Rightarrow> bool" where
  "check_password E password stored_hash =
     (case (password, stored_hash) of
        (PStr p, PStr h) \<Rightarrow> checkpw E p h
      | _ \<Rightarrow> False)"

definition login_api :: "env \<Rightarrow> store \<Rightarrow> pyval \<Rightarrow> outcome" where
  "login_api E st data =
     (case data of
        PDict d \<Rightarrow>
          (let email = dict_get d ''email'' PNone;
               password = dict_get d ''password'' PNone
           in if \<not> truthy email \<or> \<not> truthy password
              then Inr (error_body ''Email and password required'', 400)
              else
                (case take 1 (where_eq ''email'' email (users st)) of
                   [] \<Rightarrow> Inr (error_body ''User not found'', 404)
                 | (user_id, user) # rest \<Rightarrow>
                     (let stored_pw = dict_get user ''password'' (PStr [])
                      in if \<not> check_password E password stored_pw
                         then Inr (error_body ''Incorrect password'', 401)
                         else
                           (case fmlookup user ''email'' of
                              None \<Rightarrow> Inl KeyError
                            | Some user_email \<Rightarrow>
                                Inr (json_obj
                                  [(''success'', PBool True),
                                   (''user'', json_obj
                                      [(''id'', PStr user_id),
                                       (''email'', user_email),
                                       (''fullName'', dict_get user ''fullName'' (PStr [])),
                                       (''university'', dict_get user ''university'' (PStr [])),
                                       (''branch'', dict_get user ''branch'' (PStr [])),
                                       (''academicYear'', dict_get user ''academicYear'' (PStr [])),
                                       (''skills'', dict_get user ''skills'' (PList [])),
                                       (''profilePhotoUrl'', dict_get user ''profilePhotoUrl'' (PStr [])),
                                       (''coverPhotoUrl'', dict_get user ''coverPhotoUrl'' (PStr [])),
                                       (''bio'', dict_get user ''bio'' (PStr []))])], 200)))))
      | _ \<Rightarrow> Inl AttributeError)"

section \<open>Listing questions\<close>

text \<open>\<open>xs[i:j]\<close> for any two integers: a negative index counts from the end, and both
  are clipped to the list.\<close>

definition py_slice :: "'a list \<Rightarrow> int \<Rightarrow> int \<Rightarrow> 'a list" where
  "py_slice xs i j =
     (let n = int (length xs);
          lo = (if i < 0 then max 0 (i + n) else min i n);
          hi = (if j < 0 then max 0 (j + n) else min j n)
      in take (nat (hi - lo)) (drop (nat lo) xs))"

definition format_answer :: "env \<Rightarrow> string \<Rightarrow> nat \<times> pyval \<Rightarrow> py_exn + pyval" where
  "format_answer E question_id ia =
     (case ia of (idx, answer) \<Rightarrow>
        (case answer of
           PDict a \<Rightarrow>
             (case py_int E (dict_get a ''votes'' (PInt 0)) of
                Inl e \<Rightarrow> Inl e
              | Inr votes \<Rightarrow>
                  Inr (json_obj
                    [(''answerId'', dict_get a ''answerId''
                                      (PStr (question_id @ ''_ans_'' @ str_of_nat idx))),
                     (''userId'', PStr (py_str E (dict_get a ''userId'' (PStr [])))),
                     (''userName'', dict_get a ''userName'' (PStr ''Anonymous'')),
                     (''userPhoto'', dict_get a ''userPhoto'' (PStr [])),
                     (''content'', dict_get a ''content'' (PStr [])),
                     (''votes'', PInt votes),
                     (''accepted'', PBool (truthy (dict_get a ''accepted'' (PBool False)))),
                     (''createdAt'', dict_get a ''createdAt'' (PStr (iso_now E)))]))
         | _ \<Rightarrow> Inl AttributeError))"

definition format_question :: "env \<Rightarrow> string \<times> doc \<Rightarrow> py_exn + pyval" where
  "format_question E qd =
     (case qd of (question_id, q) \<Rightarrow>
        (case py_iter (dict_get q ''answers'' (PList [])) of
           Inl e \<Rightarrow> Inl e
         | Inr answers \<Rightarrow>
             (case collect (format_answer E question_id) (enumerate 0 answers) of
                Inl e \<Rightarrow> Inl e
              | Inr formatted_answers \<Rightarrow>
                  (case py_int E (dict_get q ''votes'' (PInt 0)) of
                     Inl e \<Rightarrow> Inl e
                   | Inr votes \<Rightarrow>
                       (case py_int E (dict_get q ''views'' (PInt 0)) of
                          Inl e \<Rightarrow> Inl e
                        | Inr views \<Rightarrow>
                            (case iso_or_now E (dict_get q ''createdAt'' PNone) of
                               Inl e \<Rightarrow> Inl e
                             | Inr created \<Rightarrow>
                                 Inr (json_obj
                                   [(''questionId'', PStr question_id),
                                    (''userId'', PStr (py_str E (dict_get q ''userId'' (PStr [])))),
                                    (''userName'', dict_get q ''userName'' (PStr ''Anonymous'')),
                                    (''userPhoto'', dict_get q ''userPhoto'' (PStr [])),
                                    (''title'', dict_get q ''title'' (PStr ''Untitled Question'')),
                                    (''content'', dict_get q ''content'' (PStr [])),
                                    (''tags'', dict_get q ''tags'' (PList [])),
                                    (''answers'', PList formatted_answers),
                                    (''votes'', PInt votes),
                                    (''views'', PInt views),
                                    (''createdAt'', PStr created)])))))))"

text \<open>The documents the query of \<open>get_questions\<close> streams: the tag filter, then the order.\<close>

definition all_questions :: "env \<Rightarrow> store \<Rightarrow> (string, string) fmap \<Rightarrow> collection" where
  "all_questions E st args =
     (let filter_type = py_lower E (py_str E (arg_get args ''filter'' (PStr ''all'')));
          search = py_strip E (py_str E (arg_get args ''search'' (PStr [])));
          selected =
            (if search \<noteq> []
             then (let search_term = py_lower E (py_strip E (filter (\<lambda>c. c \<noteq> CHR ''#'') search))
                   in array_contains ''tags'' (PStr search_term) (questions st))
             else questions st)
      in if filter_type = ''most-voted''
         then order_by_desc E ''votes'' selected
         else order_by_desc E ''createdAt'' selected)"

definition get_questions :: "env \<Rightarrow> store \<Rightarrow> (string, string) fmap \<Rightarrow> outcome" where
  "get_questions E st args =
     (case py_int E (arg_get args ''page'' (PInt 1)) of
        Inl e \<Rightarrow> Inl e
      | Inr page_arg \<Rightarrow>
          (case py_int E (arg_get args ''limit'' (PInt 5)) of
             Inl e \<Rightarrow> Inl e
           | Inr limit_arg \<Rightarrow>
               (let page = max 1 page_arg;
                    limit = min 100 (max 1 limit_arg);
                    skip = (page - 1) * limit;
                    everything = all_questions E st args;
                    total_count = int (length everything);
                    paginated_questions = py_slice everything skip (skip + limit)
                in case collect (format_question E) paginated_questions of
                     Inl e \<Rightarrow> Inl e
                   | Inr questions_list \<Rightarrow>
                       (let total_pages =
                              (if total_count > 0 then (total_count + limit - 1) div limit else 1)
                        in Inr (json_obj
                              [(''success'', PBool True),
                               (''questions'', PList questions_list),
                               (''pagination'', json_obj
                                  [(''currentPage'', PInt page),
                                   (''totalPages'', PInt total_pages),
                                   (''totalItems'', PInt total_count),
                                   (''itemsPerPage'', PInt limit)])], 200)))))"

section \<open>Notions used to state the properties\<close>

text \<open>An answer carries the id \<open>answer_id\<close> when the comparison of the two loops holds
  for it; it counts as accepted the way \<open>format_answer\<close> reads the flag.\<close>

definition has_answer_id :: "pyval \<Rightarrow> pyval \<Rightarrow> bool" where
  "has_answer_id answer_id a =
     (case a of PDict m \<Rightarrow> py_eq (dict_get m ''answerId'' PNone) answer_id | _ \<Rightarrow> False)"

definition is_accepted :: "pyval \<Rightarrow> bool" where
  "is_accepted a =
     (case a of PDict m \<Rightarrow> truthy (dict_get m ''accepted'' (PBool False)) | _ \<Rightarrow> False)"

fun set_accepted :: "bool \<Rightarrow> pyval \<Rightarrow> pyval" where
  "set_accepted b (PDict m) = PDict (fmupd ''accepted'' (PBool b) m)"
| "set_accepted b v = v"

text \<open>No group of the store lists a member twice.\<close>

definition doc_members_distinct :: "doc \<Rightarrow> bool" where
  "doc_members_distinct g =
     (case fmlookup g ''members'' of Some (PList xs) \<Rightarrow> distinct xs | _ \<Rightarrow> True)"

definition members_distinct :: "store \<Rightarrow> bool" where
  "members_distinct st = list_all (\<lambda>(gid, g). doc_members_distinct g) (groups st)"

text \<open>The members list of the group \<open>gid\<close> as the store holds it, empty when the group
  or the list is not there.\<close>

definition members_of :: "store \<Rightarrow> string \<Rightarrow> pyval list" where
  "members_of st gid =
     (case map_of (groups st) gid of
        Some g \<Rightarrow> (case fmlookup g ''members'' of Some (PList xs) \<Rightarrow> xs | _ \<Rightarrow> [])
      | None \<Rightarrow> [])"

text \<open>The fields \<open>signup\<close> requires; a field is missing when the body has no such key or
  holds an empty value under it.\<close>

definition required_fields :: "string list" where
  "required_fields = [''email'', ''password'', ''fullName'', ''university'', ''branch'', ''academicYear'']"

definition field_missing :: "doc \<Rightarrow> string \<Rightarrow> bool" where
  "field_missing d k = (case fmlookup d k of None \<Rightarrow> True | Some v \<Rightarrow> \<not> truthy v)"

text \<open>Some user document of the store has the email \<open>v\<close>; the first such document.\<close>

definition email_taken :: "store \<Rightarrow> pyval \<Rightarrow> bool" where
  "email_taken st v = list_ex (\<lambda>(uid, u). fmlookup u ''email'' = Some v) (users st)"

definition first_with_email :: "store \<Rightarrow> pyval \<Rightarrow> (string \<times> doc) option" where
  "first_with_email st v = find (\<lambda>(uid, u). fmlookup u ''email'' = Some v) (users st)"

text \<open>The keys of the profile that \<open>login_api\<close> returns.\<close>

definition profile_keys :: "string list" where
  "profile_keys = [''id'', ''email'', ''fullName'', ''university'', ''branch'', ''academicYear'',
     ''skills'', ''profilePhotoUrl'', ''coverPhotoUrl'', ''bio'']"

text \<open>
  \<open>run\<close> is the first digit run of \<open>s\<close>: a non-empty block of digits with no digit
  before it and none right after it.
\<close>

definition first_run_of :: "env \<Rightarrow> string \<Rightarrow> string \<Rightarrow> bool" where
  "first_run_of E s run =
     (\<exists>before after. s = before @ run @ after \<and> \<not> list_ex (is_digit E) before
        \<and> run \<noteq> [] \<and> list_all (is_digit E) run
        \<and> (after = [] \<or> \<not> is_digit E (hd after)))"

text \<open>The field \<open>k\<close> of the \<open>i\<close>-th group in a reply of \<open>get_groups\<close>.\<close>

definition listed_group_field :: "outcome \<Rightarrow> nat \<Rightarrow> string \<Rightarrow> pyval option" where
  "listed_group_field r i k =
     (case r of
        Inr (PDict body, code) \<Rightarrow>
          (case fmlookup body ''groups'' of
             Some (PList entries) \<Rightarrow>
               (if i < length entries
                then (case entries ! i of PDict e \<Rightarrow> fmlookup e k | _ \<Rightarrow> None)
                else None)
           | _ \<Rightarrow> None)
      | _ \<Rightarrow> None)"

text \<open>An integer query parameter: absent, it has its default; present, it must be a
  text that \<open>int\<close> reads.\<close>

definition int_param :: "env \<Rightarrow> (string, string) fmap \<Rightarrow> string \<Rightarrow> int \<Rightarrow> int option" where
  "int_param E args k dflt =
     (case fmlookup args k of None \<Rightarrow> Some dflt | Some s \<Rightarrow> int_of_text E s)"

definition question_id_of :: "pyval \<Rightarrow> pyval option" where
  "question_id_of r = (case r of PDict m \<Rightarrow> fmlookup m ''questionId'' | _ \<Rightarrow> None)"

section \<open>Sample data\<close>

text \<open>A sample environment and small stores, on which the properties are instantiated.
  In the sample alphabet the character 0xA3 is a decimal digit of value 3 and 0xA0 is a
  blank.\<close>

definition demo_env :: env where
  "demo_env = \<lparr>repr = (\<lambda>v. ''<object>''), checkpw = (\<lambda>p h. h = ''hashed:'' @ p),
     hashpw = (\<lambda>p. ''hashed:'' @ p), new_id = ''doc9'', unix_now = 1700000000,
     iso_now = ''2023-11-14T22:13:20'', server_time = 1700000001,
     isoformat = (\<lambda>t. ''T'' @ str_of_nat t), order_by_desc = (\<lambda>f c. c),
     max_str_digits = 4300,
     wide_class = (\<lambda>c. if c = CHR 0xA3 then WDigit 3 else if c = CHR 0xA0 then WBlank else WOther),
     wide_lower = (\<lambda>s. s), wide_upper = (\<lambda>s. s),
     icon_members = [CHR 0x80], icon_party = [CHR 0x81]\<rparr>"

definition answer_doc :: "string \<Rightarrow> string \<Rightarrow> int \<Rightarrow> bool \<Rightarrow> pyval" where
  "answer_doc aid content votes acc =
     json_obj [(''answerId'', PStr aid), (''userId'', PStr ''u2''), (''content'', PStr content),
               (''votes'', PInt votes), (''accepted'', PBool acc)]"

definition q1_doc :: "pyval list \<Rightarrow> doc" where
  "q1_doc answers = fmap_of_list [(''userId'', PStr ''u1''), (''title'', PStr ''How to prove it?''),
      (''answers'', PList answers), (''votes'', PInt 0), (''createdAt'', PTime 1699990000)]"

definition qa_store :: "pyval list \<Rightarrow> store" where
  "qa_store answers =
     \<lparr>users = [], groups = [], questions = [(''q1'', q1_doc answers)], discussions = []\<rparr>"

definition accept_request :: "string \<Rightarrow> doc" where
  "accept_request aid = fmap_of_list
     [(''questionId'', PStr ''q1''), (''answerId'', PStr aid), (''userId'', PStr ''u1'')]"

definition vote_request :: "string \<Rightarrow> string \<Rightarrow> doc" where
  "vote_request aid vote = fmap_of_list
     [(''questionId'', PStr ''q1''), (''answerId'', PStr aid), (''voteType'', PStr vote)]"

definition group_doc :: "string \<Rightarrow> string \<Rightarrow> pyval list \<Rightarrow> doc" where
  "group_doc creator team members = fmap_of_list
     [(''creatoruserid'', PStr creator), (''project_name'', PStr ''Compiler project''),
      (''preferred_team_size'', PStr team), (''members'', PList members),
      (''createdAt'', PTime 1699990000)]"

definition discussion_doc :: doc where
  "discussion_doc = fmap_of_list
     [(''roomName'', PStr ''general''), (''groupId'', PStr ''g1''), (''participants'', PList [PStr ''u1'']),
      (''messages'', PList []), (''lastMessage'', PStr [])]"

definition group_store :: "string \<Rightarrow> pyval list \<Rightarrow> store" where
  "group_store team members =
     \<lparr>users = [], groups = [(''g1'', group_doc ''u1'' team members)], questions = [],
      discussions = [(''d1'', discussion_doc)]\<rparr>"

definition join_request :: "string \<Rightarrow> pyval" where
  "join_request uid = json_obj [(''user_id'', PStr uid), (''group_id'', PStr ''g1'')]"

definition message_request :: "string \<Rightarrow> doc" where
  "message_request uid = fmap_of_list
     [(''discussionId'', PStr ''d1''), (''userId'', PStr uid), (''userName'', PStr ''Ada''),
      (''content'', PStr ''hello'')]"

definition user_doc :: "string \<Rightarrow> string \<Rightarrow> doc" where
  "user_doc email pw_hash = fmap_of_list
     [(''email'', PStr email), (''password'', PStr pw_hash), (''fullName'', PStr ''Ada Byron''),
      (''university'', PStr ''Turin''), (''branch'', PStr ''Mathematics''),
      (''academicYear'', PStr ''2''), (''skills'', PList [PStr ''logic'']),
      (''profilePhotoUrl'', PStr []), (''coverPhotoUrl'', PStr []), (''bio'', PStr ''Hello'')]"

definition user_store :: store where
  "user_store = \<lparr>users = [(''u1'', user_doc ''ada@example.org'' ''hashed:secret'')], groups = [],
     questions = [], discussions = []\<rparr>"

definition signup_request :: "string \<Rightarrow> (string \<times> pyval) list \<Rightarrow> doc" where
  "signup_request email rest = fmap_of_list
     ([(''email'', PStr email), (''password'', PStr ''secret''), (''fullName'', PStr ''Ada Byron''),
       (''university'', PStr ''Turin''), (''branch'', PStr ''Mathematics'')] @ rest)"

definition login_request :: "string \<Rightarrow> string \<Rightarrow> doc" where
  "login_request email pw = fmap_of_list [(''email'', PStr email), (''password'', PStr pw)]"

definition list_request :: group_request where
  "list_request = \<lparr>is_post = False, json_body = None, query_args = fmap_of_list [(''userId'', ''u1'')]\<rparr>"

definition question_ids :: "string list" where
  "question_ids = [''q01'', ''q02'', ''q03'', ''q04'', ''q05'', ''q06'', ''q07'', ''q08'', ''q09'',
     ''q10'', ''q11'', ''q12'']"

definition twelve_store :: store where
  "twelve_store = \<lparr>users = [], groups = [],
     questions = map (\<lambda>i. (i, q1_doc [])) question_ids, discussions = []\<rparr>"

definition page_args :: "string \<Rightarrow> string \<Rightarrow> (string, string) fmap" where
  "page_args page limit = fmap_of_list [(''page'', page), (''limit'', limit)]"

section \<open>Properties\<close>

lemmas qa_demo_defs = accept_request_def vote_request_def qa_store_def q1_doc_def answer_doc_def
  json_obj_def dict_get_def demo_env_def py_eq_def status_of_def Let_def error_body_def

lemma is_dict_cases: "is_dict v \<Longrightarrow> \<exists>m. v = PDict m"
  by (cases v) simp_all

lemma accept_loop_dicts:
  "list_all is_dict xs \<Longrightarrow>
   accept_loop aid xs = Inr (map (\<lambda>a. set_accepted (has_answer_id aid a) a) xs)"
proof (induction xs)
  case Nil
  show ?case by simp
next
  case (Cons x xs)
  then obtain m where "x = PDict m" using is_dict_cases by auto
  with Cons show ?case by (simp add: has_answer_id_def)
qed

lemma accept_loop_Inr_dicts: "accept_loop aid xs = Inr ys \<Longrightarrow> list_all is_dict xs"
proof (induction xs arbitrary: ys)
  case Nil
  show ?case by simp
next
  case (Cons x xs)
  then show ?case by (cases x) (auto split: sum.splits)
qed

lemma is_accepted_set_accepted: "is_dict a \<Longrightarrow> is_accepted (set_accepted b a) = b"
  by (cases a) (simp_all add: is_accepted_def dict_get_def)

lemma map_of_coll_update:
  "map_of (coll_update k f c) k' = (if k' = k then map_option f (map_of c k) else map_of c k')"
  by (induction c) auto









text \<open>
  C1, as the code has it. When \<open>accept_answer\<close> answers 200 for a question whose
  answers are a list, the array written back is the array read with \<open>accepted\<close> set to
  \<open>True\<close> in every answer that carries the requested id and to \<open>False\<close> in every
  other one. The accepted answers afterwards are exactly the answers with that id, so
  there are as many of them as there are answers with that id: one when the id is
  unique in the question, more when several answers share it.
\<close>

theorem accept_answer_marks_matching:
  assumes "status_of (fst (accept_answer E st (PDict d))) = 200"
    and "dict_get d ''questionId'' PNone = PStr qid"
    and "map_of (questions st) qid = Some question"
    and "dict_get question ''answers'' (PList []) = PList answers"
  shows "snd (accept_answer E st (PDict d)) =
           st\<lparr>questions := coll_update qid
             (fmupd ''answers''
               (PList (map (\<lambda>a. set_accepted (has_answer_id (dict_get d ''answerId'' PNone) a) a)
                         answers)))
             (questions st)\<rparr>
       \<and> map is_accepted
             (map (\<lambda>a. set_accepted (has_answer_id (dict_get d ''answerId'' PNone) a) a) answers)
           = map (has_answer_id (dict_get d ''answerId'' PNone)) answers
       \<and> length (filter is_accepted
            (map (\<lambda>a. set_accepted (has_answer_id (dict_get d ''answerId'' PNone) a) a) answers))
           = length (filter (has_answer_id (dict_get d ''answerId'' PNone)) answers)"
proof -
  let ?aid = "dict_get d ''answerId'' PNone"
  let ?mark = "\<lambda>a. set_accepted (has_answer_id ?aid a) a"
  from assms obtain ys where ys: "accept_loop ?aid answers = Inr ys"
    by (auto simp: accept_answer_def Let_def accept_all_def status_of_def error_body_def
        split: if_splits sum.splits)
  have dicts: "list_all is_dict answers" using ys by (rule accept_loop_Inr_dicts)
  have st: "snd (accept_answer E st (PDict d)) =
      st\<lparr>questions := coll_update qid (fmupd ''answers'' (PList (map ?mark answers))) (questions st)\<rparr>"
    using assms dicts
    by (auto simp: accept_answer_def Let_def accept_all_def status_of_def error_body_def
        accept_loop_dicts split: if_splits sum.splits)
  have flags: "map is_accepted (map ?mark answers) = map (has_answer_id ?aid) answers"
    using dicts by (induction answers) (simp_all add: is_accepted_set_accepted)
  have "length (filter is_accepted (map ?mark answers)) = length (filter (has_answer_id ?aid) answers)"
    using dicts by (induction answers) (simp_all add: is_accepted_set_accepted)
  with st flags show ?thesis by simp
qed

theorem accept_answer_marks_matching_witness:
  "status_of (fst (accept_answer demo_env
       (qa_store [answer_doc ''a1'' ''first'' 0 True, answer_doc ''a2'' ''second'' 0 False])
       (PDict (accept_request ''a2'')))) = 200
   \<and> map is_accepted [answer_doc ''a1'' ''first'' 0 True, answer_doc ''a2'' ''second'' 0 False]
       = [True, False]
   \<and> map is_accepted
       (map (\<lambda>a. set_accepted (has_answer_id (dict_get (accept_request ''a2'') ''answerId'' PNone) a) a)
          [answer_doc ''a1'' ''first'' 0 True, answer_doc ''a2'' ''second'' 0 False])
       = [False, True]"
proof -
  let ?answers = "[answer_doc ''a1'' ''first'' 0 True, answer_doc ''a2'' ''second'' 0 False]"
  have h1: "status_of (fst (accept_answer demo_env (qa_store ?answers)
       (PDict (accept_request ''a2'')))) = 200"
    by (simp add: accept_answer_def accept_all_def qa_demo_defs)
  have h2: "dict_get (accept_request ''a2'') ''questionId'' PNone = PStr ''q1''"
    by (simp add: qa_demo_defs)
  have h3: "map_of (questions (qa_store ?answers)) ''q1'' = Some (q1_doc ?answers)"
    by (simp add: qa_store_def)
  have h4: "dict_get (q1_doc ?answers) ''answers'' (PList []) = PList ?answers"
    by (simp add: q1_doc_def dict_get_def)
  have before: "map is_accepted ?answers = [True, False]"
    by (simp add: is_accepted_def qa_demo_defs)
  have "map (has_answer_id (dict_get (accept_request ''a2'') ''answerId'' PNone)) ?answers
      = [False, True]"
    by (simp add: has_answer_id_def qa_demo_defs)
  with accept_answer_marks_matching [OF h1 h2 h3 h4] h1 before show ?thesis by simp
qed

text \<open>
  Against C1 as stated: two answers posted within the same second carry the same
  \<open>answerId\<close>. The author accepts that id; the request is answered 200 and both answers
  are accepted afterwards.
\<close>

theorem accept_answer_two_accepted:
  "status_of (fst (accept_answer demo_env
       (qa_store [answer_doc ''q1_ans_1700000000'' ''first'' 0 False,
                  answer_doc ''q1_ans_1700000000'' ''second'' 0 False])
       (PDict (accept_request ''q1_ans_1700000000'')))) = 200
   \<and> map_of (questions (snd (accept_answer demo_env
       (qa_store [answer_doc ''q1_ans_1700000000'' ''first'' 0 False,
                  answer_doc ''q1_ans_1700000000'' ''second'' 0 False])
       (PDict (accept_request ''q1_ans_1700000000''))))) ''q1''
     = Some (fmupd ''answers''
         (PList [set_accepted True (answer_doc ''q1_ans_1700000000'' ''first'' 0 False),
                 set_accepted True (answer_doc ''q1_ans_1700000000'' ''second'' 0 False)])
         (q1_doc [answer_doc ''q1_ans_1700000000'' ''first'' 0 False,
                  answer_doc ''q1_ans_1700000000'' ''second'' 0 False]))
   \<and> length (filter is_accepted
         [set_accepted True (answer_doc ''q1_ans_1700000000'' ''first'' 0 False),
          set_accepted True (answer_doc ''q1_ans_1700000000'' ''second'' 0 False)]) = 2
   \<and> \<not> length (filter is_accepted
         [set_accepted True (answer_doc ''q1_ans_1700000000'' ''first'' 0 False),
          set_accepted True (answer_doc ''q1_ans_1700000000'' ''second'' 0 False)]) \<le> 1"
  by (simp add: accept_answer_def accept_all_def qa_demo_defs is_accepted_def)

lemmas group_demo_defs = group_doc_def discussion_doc_def group_store_def join_request_def
  message_request_def json_obj_def dict_get_def demo_env_def status_of_def Let_def error_body_def

lemma set_union_list: "set (union_list xs es) = set xs \<union> set es"
  by (induction es arbitrary: xs) auto

lemma union_list_absorb: "set es \<subseteq> set xs \<Longrightarrow> union_list xs es = xs"
  by (induction es arbitrary: xs) auto

lemma union_list_idem: "union_list (union_list xs es) es = union_list xs es"
  by (rule union_list_absorb) (simp add: set_union_list)

lemma distinct_union_list: "distinct xs \<Longrightarrow> distinct (union_list xs es)"
  by (induction es arbitrary: xs) auto

lemma array_union_idem: "array_union f es (array_union f es d) = array_union f es d"
  by (auto simp: array_union_def union_list_idem split: option.splits pyval.splits)

lemma coll_update_idem:
  "(\<And>d. f (f d) = f d) \<Longrightarrow> coll_update k f (coll_update k f c) = coll_update k f c"
  by (induction c) auto

lemma doc_members_distinct_union:
  "doc_members_distinct g \<Longrightarrow> doc_members_distinct (array_union ''members'' es g)"
  by (auto simp: doc_members_distinct_def array_union_def distinct_union_list
      split: option.splits pyval.splits)

lemma list_all_coll_update:
  "list_all (\<lambda>(i, d). P d) c \<Longrightarrow> (\<And>d. P d \<Longrightarrow> P (f d)) \<Longrightarrow>
   list_all (\<lambda>(i, d). P d) (coll_update k f c)"
  by (induction c) auto

lemma members_of_join:
  assumes "map_of (groups st) gid = Some g"
  shows "members_of (st\<lparr>groups := coll_update gid (array_union ''members'' [u]) (groups st)\<rparr>) gid
      = (if u \<in> set (members_of st gid) then members_of st gid else members_of st gid @ [u])"
  using assms
  by (auto simp: members_of_def map_of_coll_update array_union_def
      split: option.splits pyval.splits)

text \<open>
  C7. Joining twice with the same request leaves the store, and with it the members
  list of the group, as joining once does, and the second request gets the reply of the
  first. Joining never introduces a duplicate: when no group of the store lists a
  member twice before the request, none does after it. A join that is answered 200
  leaves the members list as it was when it holds the user id already, and adds the
  user id at its end otherwise.
\<close>

theorem join_group_idempotent:
  "snd (join_group_api E (snd (join_group_api E st data)) data) = snd (join_group_api E st data)
   \<and> fst (join_group_api E (snd (join_group_api E st data)) data) = fst (join_group_api E st data)
   \<and> (members_distinct st \<longrightarrow> members_distinct (snd (join_group_api E st data)))
   \<and> (\<forall>d gid. data = PDict d \<and> dict_get d ''group_id'' PNone = PStr gid
         \<and> status_of (fst (join_group_api E st data)) = 200 \<longrightarrow>
         members_of (snd (join_group_api E st data)) gid =
           (if PStr (py_str E (dict_get d ''user_id'' PNone)) \<in> set (members_of st gid)
            then members_of st gid
            else members_of st gid @ [PStr (py_str E (dict_get d ''user_id'' PNone))]))"
proof (cases data)
  case (PDict d)
  show ?thesis
  proof (cases "dict_get d ''group_id'' PNone")
    case (PStr gid)
    show ?thesis
    proof (cases "map_of (groups st) gid")
      case None
      with PDict PStr show ?thesis
        by (simp add: join_group_api_def Let_def status_of_def error_body_def)
    next
      case (Some g)
      with PDict PStr show ?thesis
        by (simp add: join_group_api_def Let_def map_of_coll_update coll_update_idem
            array_union_idem members_distinct_def list_all_coll_update
            doc_members_distinct_union members_of_join status_of_def error_body_def)
    qed
  qed (simp_all add: PDict join_group_api_def Let_def)
qed (simp_all add: join_group_api_def)

theorem join_group_idempotent_witness:
  "members_distinct (group_store ''4 members'' [PStr ''u1''])
   \<and> members_of (group_store ''4 members'' [PStr ''u1'']) ''g1'' = [PStr ''u1'']
   \<and> status_of (fst (join_group_api demo_env (group_store ''4 members'' [PStr ''u1''])
        (join_request ''u2''))) = 200
   \<and> snd (join_group_api demo_env (group_store ''4 members'' [PStr ''u1'']) (join_request ''u2''))
       = group_store ''4 members'' [PStr ''u1'', PStr ''u2'']
   \<and> members_of (snd (join_group_api demo_env (group_store ''4 members'' [PStr ''u1''])
        (join_request ''u2''))) ''g1'' = [PStr ''u1'', PStr ''u2'']
   \<and> snd (join_group_api demo_env (group_store ''4 members'' [PStr ''u1'', PStr ''u2''])
            (join_request ''u2''))
       = group_store ''4 members'' [PStr ''u1'', PStr ''u2'']
   \<and> members_distinct (group_store ''4 members'' [PStr ''u1'', PStr ''u2''])"
proof -
  let ?st = "group_store ''4 members'' [PStr ''u1'']"
  let ?st' = "group_store ''4 members'' [PStr ''u1'', PStr ''u2'']"
  let ?d = "fmap_of_list [(''user_id'', PStr ''u2''), (''group_id'', PStr ''g1'')]"
  have grow: "array_union ''members'' [PStr ''u2''] (group_doc ''u1'' ''4 members'' [PStr ''u1''])
      = group_doc ''u1'' ''4 members'' [PStr ''u1'', PStr ''u2'']"
    by (rule fmap_ext) (auto simp: array_union_def group_doc_def)
  have once: "snd (join_group_api demo_env ?st (join_request ''u2'')) = ?st'"
    by (simp add: join_group_api_def group_store_def join_request_def json_obj_def
        dict_get_def demo_env_def Let_def grow)
  have ok: "status_of (fst (join_group_api demo_env ?st (join_request ''u2''))) = 200"
    by (simp add: join_group_api_def group_store_def join_request_def json_obj_def
        dict_get_def demo_env_def Let_def status_of_def)
  have d: "members_distinct ?st"
    by (simp add: members_distinct_def doc_members_distinct_def group_store_def group_doc_def)
  have before: "members_of ?st ''g1'' = [PStr ''u1'']"
    by (simp add: members_of_def group_store_def group_doc_def)
  have req: "join_request ''u2'' = PDict ?d"
    and gid: "dict_get ?d ''group_id'' PNone = PStr ''g1''"
    and uid: "py_str demo_env (dict_get ?d ''user_id'' PNone) = ''u2''"
    by (simp_all add: join_request_def json_obj_def dict_get_def)
  note run = join_group_idempotent [of demo_env ?st "join_request ''u2''"]
  from run once d have twice: "snd (join_group_api demo_env ?st' (join_request ''u2'')) = ?st'"
    and d': "members_distinct ?st'"
    by simp_all
  from run req gid ok
  have "members_of (snd (join_group_api demo_env ?st (join_request ''u2''))) ''g1'' =
      (if PStr (py_str demo_env (dict_get ?d ''user_id'' PNone)) \<in> set (members_of ?st ''g1'')
       then members_of ?st ''g1''
       else members_of ?st ''g1'' @ [PStr (py_str demo_env (dict_get ?d ''user_id'' PNone))])"
    by blast
  then have after: "members_of (snd (join_group_api demo_env ?st (join_request ''u2''))) ''g1''
      = [PStr ''u1'', PStr ''u2'']"
    unfolding uid before by simp
  show ?thesis by (intro conjI d before ok once after twice d')
qed

text \<open>
  C6. A message for a discussion of a group, sent by a user who is not in the members
  list of that group, is answered 403 and the store is left as it was; the discussion
  and its messages are those of before.
  The discussion id and the group id are non-empty strings and the user id is not empty.
\<close>

theorem send_message_non_member:
  assumes "dict_get d ''discussionId'' PNone = PStr did" and "did \<noteq> []"
    and "py_str E (dict_get d ''userId'' PNone) \<noteq> []"
    and "map_of (discussions st) did = Some discussion"
    and "dict_get discussion ''groupId'' PNone = PStr gid" and "gid \<noteq> []"
    and "map_of (groups st) gid = Some grp"
    and "dict_get grp ''members'' (PList []) = PList members"
    and "py_str E (dict_get d ''userId'' PNone) \<notin> set (map (py_str E) members)"
  shows "send_message E st (PDict d) = (Inr (error_body ''Access denied'', 403), st)
       \<and> map_of (discussions (snd (send_message E st (PDict d)))) did = Some discussion"
  using assms by (simp add: send_message_def Let_def py_iter_def)

theorem send_message_non_member_witness:
  "map_of (discussions (group_store ''4 members'' [PStr ''u1'', PStr ''u2''])) ''d1''
     = Some discussion_doc
   \<and> ''u3'' \<notin> set (map (py_str demo_env) [PStr ''u1'', PStr ''u2''])
   \<and> send_message demo_env (group_store ''4 members'' [PStr ''u1'', PStr ''u2''])
        (PDict (message_request ''u3''))
       = (Inr (error_body ''Access denied'', 403), group_store ''4 members'' [PStr ''u1'', PStr ''u2''])"
proof -
  let ?st = "group_store ''4 members'' [PStr ''u1'', PStr ''u2'']"
  let ?d = "message_request ''u3''"
  have h1: "dict_get ?d ''discussionId'' PNone = PStr ''d1''" by (simp add: group_demo_defs)
  have h2: "''d1'' \<noteq> []" by simp
  have uid: "py_str demo_env (dict_get ?d ''userId'' PNone) = ''u3''" by (simp add: group_demo_defs)
  have h3: "py_str demo_env (dict_get ?d ''userId'' PNone) \<noteq> []" by (simp add: uid)
  have h4: "map_of (discussions ?st) ''d1'' = Some discussion_doc" by (simp add: group_store_def)
  have h5: "dict_get discussion_doc ''groupId'' PNone = PStr ''g1''" by (simp add: group_demo_defs)
  have h6: "''g1'' \<noteq> []" by simp
  have h7: "map_of (groups ?st) ''g1'' = Some (group_doc ''u1'' ''4 members'' [PStr ''u1'', PStr ''u2''])"
    by (simp add: group_store_def)
  have h8: "dict_get (group_doc ''u1'' ''4 members'' [PStr ''u1'', PStr ''u2'']) ''members'' (PList [])
      = PList [PStr ''u1'', PStr ''u2'']"
    by (simp add: group_demo_defs)
  have out: "''u3'' \<notin> set (map (py_str demo_env) [PStr ''u1'', PStr ''u2''])" by simp
  have h9: "py_str demo_env (dict_get ?d ''userId'' PNone)
      \<notin> set (map (py_str demo_env) [PStr ''u1'', PStr ''u2''])"
    using out by (simp add: uid)
  from send_message_non_member [OF h1 h2 h3 h4 h5 h6 h7 h8 h9] h4 out show ?thesis by simp
qed

lemmas user_demo_defs = user_doc_def user_store_def signup_request_def login_request_def
  json_obj_def dict_get_def demo_env_def status_of_def Let_def error_body_def

text \<open>
  C8, on the code. A request without a \<open>userId\<close> parameter is never answered 400:
  \<open>str(None)\<close> is the non-empty string \<open>None\<close>, the test \<^verbatim>\<open>if not user_id\<close> lets it pass,
  and the handler goes on with a user called \<open>None\<close>; on the sample store it answers
  200 with a feed. The sibling \<open>get_my_groups\<close> also compares with \<open>'None'\<close> and
  answers 400.
\<close>

theorem get_notifications_without_user_id:
  "status_of (get_notifications E st fmempty) \<noteq> 400
   \<and> get_notifications demo_env user_store fmempty =
     Inr (json_obj [(''success'', PBool True),
                    (''notifications'', PList [platform_update demo_env])], 200)
   \<and> get_my_groups demo_env user_store fmempty = Inr (error_body ''User ID required'', 400)"
  by (simp add: get_notifications_def get_my_groups_def arg_get_def array_contains_def
      user_store_def Let_def status_of_def split: sum.splits)

lemma signup_missing:
  assumes "k \<in> set required_fields" and "field_missing d k"
  shows "signup E st (PDict d) =
    (Inr (error_body ''All fields except skills are required'', 400), st)"
proof -
  have "\<not> truthy (dict_get d k PNone)"
    using assms(2) by (simp add: field_missing_def dict_get_def split: option.splits)
  with assms(1) show ?thesis
    by (auto simp: required_fields_def signup_def Let_def)
qed

lemma where_eq_nonempty:
  "(where_eq f v c \<noteq> []) = list_ex (\<lambda>(i, d). fmlookup d f = Some v) c"
  by (induction c) (auto simp: where_eq_def)

lemma take1_where_eq:
  "take 1 (where_eq f v c) =
     (case find (\<lambda>(i, d). fmlookup d f = Some v) c of None \<Rightarrow> [] | Some x \<Rightarrow> [x])"
  by (induction c) (auto simp: where_eq_def)

text \<open>
  C4. A signup request in which one of the six required fields is missing is answered
  400; one in which all six are present and whose email is the email of a stored user
  is answered 409. In both cases the store, and with it the users collection, is as
  before.
\<close>

theorem signup_rejections:
  "(list_ex (field_missing d) required_fields \<longrightarrow>
      signup E st (PDict d) =
        (Inr (error_body ''All fields except skills are required'', 400), st))
   \<and> (\<not> list_ex (field_missing d) required_fields
        \<and> email_taken st (dict_get d ''email'' PNone) \<longrightarrow>
      signup E st (PDict d) = (Inr (error_body ''User already exists'', 409), st))"
proof (intro conjI impI)
  assume "list_ex (field_missing d) required_fields"
  then obtain k where "k \<in> set required_fields" "field_missing d k"
    by (auto simp: list_ex_iff)
  then show "signup E st (PDict d) =
      (Inr (error_body ''All fields except skills are required'', 400), st)"
    by (rule signup_missing)
next
  assume a: "\<not> list_ex (field_missing d) required_fields
      \<and> email_taken st (dict_get d ''email'' PNone)"
  then have present: "truthy (dict_get d k PNone)" if "k \<in> set required_fields" for k
    using that by (auto simp: list_ex_iff field_missing_def dict_get_def split: option.splits)
  have "where_eq ''email'' (dict_get d ''email'' PNone) (users st) \<noteq> []"
    using a by (simp add: where_eq_nonempty email_taken_def)
  then have "length (take 1 (where_eq ''email'' (dict_get d ''email'' PNone) (users st))) > 0"
    by (cases "where_eq ''email'' (dict_get d ''email'' PNone) (users st)") simp_all
  with present show "signup E st (PDict d) = (Inr (error_body ''User already exists'', 409), st)"
    by (simp add: signup_def Let_def required_fields_def)
qed

theorem signup_rejections_witness:
  "list_ex (field_missing (signup_request ''bob@example.org'' [])) required_fields
   \<and> signup demo_env user_store (PDict (signup_request ''bob@example.org'' [])) =
        (Inr (error_body ''All fields except skills are required'', 400), user_store)
   \<and> \<not> list_ex (field_missing (signup_request ''ada@example.org'' [(''academicYear'', PStr ''1'')]))
          required_fields
   \<and> email_taken user_store (PStr ''ada@example.org'')
   \<and> signup demo_env user_store
        (PDict (signup_request ''ada@example.org'' [(''academicYear'', PStr ''1'')])) =
        (Inr (error_body ''User already exists'', 409), user_store)"
proof -
  let ?bob = "signup_request ''bob@example.org'' []"
  let ?ada = "signup_request ''ada@example.org'' [(''academicYear'', PStr ''1'')]"
  have h1: "list_ex (field_missing ?bob) required_fields"
    by (simp add: required_fields_def field_missing_def signup_request_def)
  have h2: "\<not> list_ex (field_missing ?ada) required_fields"
    by (simp add: required_fields_def field_missing_def signup_request_def)
  have email: "dict_get ?ada ''email'' PNone = PStr ''ada@example.org''"
    by (simp add: user_demo_defs)
  have taken: "email_taken user_store (PStr ''ada@example.org'')"
    by (simp add: email_taken_def user_store_def user_doc_def)
  have h3: "email_taken user_store (dict_get ?ada ''email'' PNone)"
    using taken by (simp add: email)
  from signup_rejections [of ?bob demo_env user_store] h1
  have r1: "signup demo_env user_store (PDict ?bob) =
      (Inr (error_body ''All fields except skills are required'', 400), user_store)"
    by blast
  from signup_rejections [of ?ada demo_env user_store] h2 h3
  have r2: "signup demo_env user_store (PDict ?ada) =
      (Inr (error_body ''User already exists'', 409), user_store)"
    by blast
  from h1 h2 taken r1 r2 show ?thesis by blast
qed

lemma find_Some_email:
  "find (\<lambda>(i, d). fmlookup d f = Some v) c = Some (uid, u) \<Longrightarrow> fmlookup u f = Some v"
  by (induction c) (auto split: if_splits)

text \<open>
  C5. A login request that carries an email and a password: when no user document has
  the email it is answered 404; when the first document with the email fails the
  password check it is answered 401; otherwise it is answered 200 with a profile of
  that document that has exactly ten fields: the document's id, its email, and the
  fields \<open>fullName\<close>, \<open>university\<close>, \<open>branch\<close>, \<open>academicYear\<close>, \<open>skills\<close>,
  \<open>profilePhotoUrl\<close>, \<open>coverPhotoUrl\<close> and \<open>bio\<close> as the document has them, the empty
  text (for \<open>skills\<close> the empty list) standing for a field the document lacks. There is
  no \<open>password\<close> among them.
\<close>

theorem login_outcomes:
  assumes "truthy (dict_get d ''email'' PNone)" and "truthy (dict_get d ''password'' PNone)"
  shows "(\<not> email_taken st (dict_get d ''email'' PNone) \<longrightarrow>
            login_api E st (PDict d) = Inr (error_body ''User not found'', 404))
       \<and> (\<forall>uid u. first_with_email st (dict_get d ''email'' PNone) = Some (uid, u)
              \<and> \<not> check_password E (dict_get d ''password'' PNone) (dict_get u ''password'' (PStr []))
            \<longrightarrow> login_api E st (PDict d) = Inr (error_body ''Incorrect password'', 401))
       \<and> (\<forall>uid u. first_with_email st (dict_get d ''email'' PNone) = Some (uid, u)
              \<and> check_password E (dict_get d ''password'' PNone) (dict_get u ''password'' (PStr []))
            \<longrightarrow> (\<exists>profile.
                   login_api E st (PDict d) =
                     Inr (json_obj [(''success'', PBool True), (''user'', PDict profile)], 200)
                   \<and> fmlookup profile ''password'' = None
                   \<and> fmdom' profile = set profile_keys
                   \<and> fmlookup profile ''id'' = Some (PStr uid)
                   \<and> fmlookup profile ''email'' = fmlookup u ''email''
                   \<and> fmlookup profile ''fullName'' = Some (dict_get u ''fullName'' (PStr []))
                   \<and> fmlookup profile ''university'' = Some (dict_get u ''university'' (PStr []))
                   \<and> fmlookup profile ''branch'' = Some (dict_get u ''branch'' (PStr []))
                   \<and> fmlookup profile ''academicYear'' = Some (dict_get u ''academicYear'' (PStr []))
                   \<and> fmlookup profile ''skills'' = Some (dict_get u ''skills'' (PList []))
                   \<and> fmlookup profile ''profilePhotoUrl'' = Some (dict_get u ''profilePhotoUrl'' (PStr []))
                   \<and> fmlookup profile ''coverPhotoUrl'' = Some (dict_get u ''coverPhotoUrl'' (PStr []))
                   \<and> fmlookup profile ''bio'' = Some (dict_get u ''bio'' (PStr []))))"
proof (intro conjI allI impI)
  assume "\<not> email_taken st (dict_get d ''email'' PNone)"
  then have "where_eq ''email'' (dict_get d ''email'' PNone) (users st) = []"
    using where_eq_nonempty [of "''email''" "dict_get d ''email'' PNone" "users st"]
    by (simp add: email_taken_def)
  with assms show "login_api E st (PDict d) = Inr (error_body ''User not found'', 404)"
    by (simp add: login_api_def Let_def)
next
  fix uid u
  assume a: "first_with_email st (dict_get d ''email'' PNone) = Some (uid, u)
      \<and> \<not> check_password E (dict_get d ''password'' PNone) (dict_get u ''password'' (PStr []))"
  then have "take 1 (where_eq ''email'' (dict_get d ''email'' PNone) (users st)) = [(uid, u)]"
    using take1_where_eq [of "''email''" "dict_get d ''email'' PNone" "users st"]
    by (simp add: first_with_email_def)
  with assms a show "login_api E st (PDict d) = Inr (error_body ''Incorrect password'', 401)"
    by (simp add: login_api_def Let_def)
next
  fix uid u
  assume a: "first_with_email st (dict_get d ''email'' PNone) = Some (uid, u)
      \<and> check_password E (dict_get d ''password'' PNone) (dict_get u ''password'' (PStr []))"
  then have first: "take 1 (where_eq ''email'' (dict_get d ''email'' PNone) (users st)) = [(uid, u)]"
    using take1_where_eq [of "''email''" "dict_get d ''email'' PNone" "users st"]
    by (simp add: first_with_email_def)
  have email: "fmlookup u ''email'' = Some (dict_get d ''email'' PNone)"
    using a by (auto simp: first_with_email_def dest: find_Some_email)
  let ?profile = "fmap_of_list
     [(''id'', PStr uid),
      (''email'', dict_get d ''email'' PNone),
      (''fullName'', dict_get u ''fullName'' (PStr [])),
      (''university'', dict_get u ''university'' (PStr [])),
      (''branch'', dict_get u ''branch'' (PStr [])),
      (''academicYear'', dict_get u ''academicYear'' (PStr [])),
      (''skills'', dict_get u ''skills'' (PList [])),
      (''profilePhotoUrl'', dict_get u ''profilePhotoUrl'' (PStr [])),
      (''coverPhotoUrl'', dict_get u ''coverPhotoUrl'' (PStr [])),
      (''bio'', dict_get u ''bio'' (PStr []))]"
  have run: "login_api E st (PDict d) =
      Inr (json_obj [(''success'', PBool True), (''user'', PDict ?profile)], 200)"
    using assms a first email by (simp add: login_api_def Let_def json_obj_def)
  have "fmlookup ?profile ''password'' = None" by simp
  moreover have "fmdom' ?profile = set profile_keys"
    by (simp add: profile_keys_def)
  moreover have "fmlookup ?profile ''id'' = Some (PStr uid)" by simp
  moreover have "fmlookup ?profile ''email'' = fmlookup u ''email''" by (simp add: email)
  moreover have "fmlookup ?profile ''fullName'' = Some (dict_get u ''fullName'' (PStr []))" by simp
  moreover have "fmlookup ?profile ''university'' = Some (dict_get u ''university'' (PStr []))" by simp
  moreover have "fmlookup ?profile ''branch'' = Some (dict_get u ''branch'' (PStr []))" by simp
  moreover have "fmlookup ?profile ''academicYear'' = Some (dict_get u ''academicYear'' (PStr []))" by simp
  moreover have "fmlookup ?profile ''skills'' = Some (dict_get u ''skills'' (PList []))" by simp
  moreover have "fmlookup ?profile ''profilePhotoUrl'' = Some (dict_get u ''profilePhotoUrl'' (PStr []))" by simp
  moreover have "fmlookup ?profile ''coverPhotoUrl'' = Some (dict_get u ''coverPhotoUrl'' (PStr []))" by simp
  moreover have "fmlookup ?profile ''bio'' = Some (dict_get u ''bio'' (PStr []))" by simp
  ultimately show "\<exists>profile.
       login_api E st (PDict d) =
         Inr (json_obj [(''success'', PBool True), (''user'', PDict profile)], 200)
       \<and> fmlookup profile ''password'' = None
       \<and> fmdom' profile = set profile_keys
       \<and> fmlookup profile ''id'' = Some (PStr uid)
       \<and> fmlookup profile ''email'' = fmlookup u ''email''
       \<and> fmlookup profile ''fullName'' = Some (dict_get u ''fullName'' (PStr []))
       \<and> fmlookup profile ''university'' = Some (dict_get u ''university'' (PStr []))
       \<and> fmlookup profile ''branch'' = Some (dict_get u ''branch'' (PStr []))
       \<and> fmlookup profile ''academicYear'' = Some (dict_get u ''academicYear'' (PStr []))
       \<and> fmlookup profile ''skills'' = Some (dict_get u ''skills'' (PList []))
       \<and> fmlookup profile ''profilePhotoUrl'' = Some (dict_get u ''profilePhotoUrl'' (PStr []))
       \<and> fmlookup profile ''coverPhotoUrl'' = Some (dict_get u ''coverPhotoUrl'' (PStr []))
       \<and> fmlookup profile ''bio'' = Some (dict_get u ''bio'' (PStr []))"
    using run by (intro exI [of _ ?profile] conjI)
qed

theorem login_outcomes_witness:
  "\<not> email_taken user_store (PStr ''carol@example.org'')
   \<and> login_api demo_env user_store (PDict (login_request ''carol@example.org'' ''secret'')) =
       Inr (error_body ''User not found'', 404)
   \<and> first_with_email user_store (PStr ''ada@example.org'') =
       Some (''u1'', user_doc ''ada@example.org'' ''hashed:secret'')
   \<and> \<not> check_password demo_env (PStr ''guess'') (PStr ''hashed:secret'')
   \<and> login_api demo_env user_store (PDict (login_request ''ada@example.org'' ''guess'')) =
       Inr (error_body ''Incorrect password'', 401)
   \<and> check_password demo_env (PStr ''secret'') (PStr ''hashed:secret'')
   \<and> (\<exists>profile.
         login_api demo_env user_store (PDict (login_request ''ada@example.org'' ''secret'')) =
           Inr (json_obj [(''success'', PBool True), (''user'', PDict profile)], 200)
         \<and> fmlookup profile ''password'' = None
         \<and> fmlookup profile ''id'' = Some (PStr ''u1'')
         \<and> fmlookup profile ''fullName'' = Some (PStr ''Ada Byron'')
         \<and> fmlookup profile ''skills'' = Some (PList [PStr ''logic''])
         \<and> fmlookup profile ''bio'' = Some (PStr ''Hello''))"
proof -
  let ?ada = "user_doc ''ada@example.org'' ''hashed:secret''"
  have e: "dict_get (login_request m p) ''email'' PNone = PStr m"
    and p: "dict_get (login_request m p) ''password'' PNone = PStr p" for m p
    by (simp_all add: login_request_def dict_get_def)
  have stored: "dict_get ?ada ''password'' (PStr []) = PStr ''hashed:secret''"
    and name: "dict_get ?ada ''fullName'' (PStr []) = PStr ''Ada Byron''"
    and skills: "dict_get ?ada ''skills'' (PList []) = PList [PStr ''logic'']"
    and bio: "dict_get ?ada ''bio'' (PStr []) = PStr ''Hello''"
    by (simp_all add: user_doc_def dict_get_def)
  have none: "\<not> email_taken user_store (PStr ''carol@example.org'')"
    by (simp add: email_taken_def user_store_def user_doc_def)
  have first: "first_with_email user_store (PStr ''ada@example.org'') = Some (''u1'', ?ada)"
    by (simp add: first_with_email_def user_store_def user_doc_def)
  have bad: "\<not> check_password demo_env (PStr ''guess'') (PStr ''hashed:secret'')"
    and good: "check_password demo_env (PStr ''secret'') (PStr ''hashed:secret'')"
    by (simp_all add: check_password_def demo_env_def)
  have r1: "login_api demo_env user_store (PDict (login_request ''carol@example.org'' ''secret'')) =
      Inr (error_body ''User not found'', 404)"
    using login_outcomes [of "login_request ''carol@example.org'' ''secret''" user_store demo_env]
      none by (simp add: e p)
  have r2: "login_api demo_env user_store (PDict (login_request ''ada@example.org'' ''guess'')) =
      Inr (error_body ''Incorrect password'', 401)"
    using login_outcomes [of "login_request ''ada@example.org'' ''guess''" user_store demo_env]
      first bad by (simp add: e p stored)
  have r3: "\<exists>profile.
      login_api demo_env user_store (PDict (login_request ''ada@example.org'' ''secret'')) =
        Inr (json_obj [(''success'', PBool True), (''user'', PDict profile)], 200)
      \<and> fmlookup profile ''password'' = None
      \<and> fmlookup profile ''id'' = Some (PStr ''u1'')
      \<and> fmlookup profile ''fullName'' = Some (PStr ''Ada Byron'')
      \<and> fmlookup profile ''skills'' = Some (PList [PStr ''logic''])
      \<and> fmlookup profile ''bio'' = Some (PStr ''Hello'')"
    using login_outcomes [of "login_request ''ada@example.org'' ''secret''" user_store demo_env]
      first good by (simp add: e p stored name skills bio) blast
  from none r1 first bad r2 good r3 show ?thesis by blast
qed

lemma collect_Inr:
  "collect f xs = Inr ys \<Longrightarrow> list_all2 (\<lambda>x y. f x = Inr y) xs ys"
  by (induction xs arbitrary: ys) (auto split: sum.splits)

lemma first_digit_run_eq:
  assumes "first_run_of E s run"
  shows "first_digit_run E s = run"
proof -
  from assms obtain before after where s: "s = before @ run @ after"
    and before: "\<not> list_ex (is_digit E) before"
    and run: "run \<noteq> []" "list_all (is_digit E) run"
    and after: "after = [] \<or> \<not> is_digit E (hd after)"
    by (auto simp: first_run_of_def)
  from run obtain c cs where c: "run = c # cs" "is_digit E c" by (cases run) auto
  have "dropWhile (\<lambda>c. \<not> is_digit E c) s = run @ after"
    using before by (simp add: s c dropWhile_append2 list_ex_iff)
  moreover have "takeWhile (is_digit E) after = []"
    using after by (cases after) auto
  ultimately show ?thesis
    using run(2) by (simp add: first_digit_run_def takeWhile_append2 list_all_iff)
qed

lemma first_digit_run_none:
  assumes "\<not> list_ex (is_digit E) s"
  shows "first_digit_run E s = []"
proof -
  have none: "dropWhile (\<lambda>c. \<not> is_digit E c) s = []"
    using assms by (simp add: list_ex_iff dropWhile_eq_Nil_conv)
  show ?thesis unfolding first_digit_run_def none by simp
qed

lemma digit_char_val:
  assumes "n < 10"
  shows "ascii_digit (digit_char n)" and "is_ascii (digit_char n)"
    and "of_char (digit_char n) - 48 = n"
proof -
  from assms have "n \<in> {0, 1, 2, 3, 4, 5, 6, 7, 8, 9}"
    by (simp only: insert_iff empty_iff) arith
  then show "ascii_digit (digit_char n)" and "is_ascii (digit_char n)"
    and "of_char (digit_char n) - 48 = n"
    by (auto simp: digit_char_def ascii_digit_def is_ascii_def)
qed

lemma ascii_digit_code: "ascii_digit c \<Longrightarrow> of_char c < (127::nat)"
  by (simp add: ascii_digit_def less_eq_char_def)

lemma ascii_digit_plain:
  assumes "ascii_digit c"
  shows "\<not> c_space c" and "c \<noteq> CHR ''-''" and "c \<noteq> CHR ''+''" and "c \<noteq> CHR ''_''"
  using assms by (auto simp: ascii_digit_def c_space_def less_eq_char_def)

text \<open>What \<open>int\<close> makes of one digit: an ASCII digit of the same value.\<close>

lemma int_text_digit:
  assumes "is_digit E c"
  defines "c' \<equiv> (if of_char c < (127::nat) then c
                  else if is_space E c then CHR 0x20
                  else if is_digit E c then digit_char (digit_val E c)
                  else CHR ''?'')"
  shows "ascii_digit c'" and "digit_val E c' = digit_val E c"
proof -
  show "ascii_digit c'"
  proof (cases "is_ascii c")
    case True
    with assms(1) have "ascii_digit c" by (simp add: is_digit_def)
    then show ?thesis using ascii_digit_code [of c] by (simp add: c'_def)
  next
    case False
    then have wide: "\<not> of_char c < (127::nat)" by (simp add: is_ascii_def)
    from False assms(1) obtain d where d: "wide_class E c = WDigit d"
      by (auto simp: is_digit_def split: wide_class.splits)
    have "c' = digit_char (d mod 10)"
      using False wide d assms(1) by (simp add: c'_def is_space_def digit_val_def)
    then show ?thesis by (simp add: digit_char_val)
  qed
  show "digit_val E c' = digit_val E c"
  proof (cases "is_ascii c")
    case True
    with assms(1) have "ascii_digit c" by (simp add: is_digit_def)
    then show ?thesis using ascii_digit_code [of c] by (simp add: c'_def)
  next
    case False
    then have wide: "\<not> of_char c < (127::nat)" by (simp add: is_ascii_def)
    from False assms(1) obtain d where d: "wide_class E c = WDigit d"
      by (auto simp: is_digit_def split: wide_class.splits)
    have c': "c' = digit_char (d mod 10)"
      using False wide d assms(1) by (simp add: c'_def is_space_def digit_val_def)
    show ?thesis
      using False d by (simp add: c' digit_val_def digit_char_val)
  qed
qed

lemma decimal_map:
  assumes "\<And>c. c \<in> set xs \<Longrightarrow> digit_val E (f c) = digit_val E c"
  shows "foldl (\<lambda>n c. 10 * n + digit_val E c) a (map f xs)
       = foldl (\<lambda>n c. 10 * n + digit_val E c) a xs"
  using assms by (induction xs arbitrary: a) simp_all

lemma int_text_digits:
  assumes "list_all (is_digit E) run"
  shows "list_all ascii_digit (int_text E run)" and "length (int_text E run) = length run"
    and "decimal E (int_text E run) = decimal E run"
proof -
  define f where "f = (\<lambda>c. if of_char c < (127::nat) then c
                          else if is_space E c then CHR 0x20
                          else if is_digit E c then digit_char (digit_val E c)
                          else CHR ''?'')"
  have each: "is_digit E c" if "c \<in> set run" for c
    using assms that by (simp add: list_all_iff)
  have digit: "ascii_digit (f c)" and same: "digit_val E (f c) = digit_val E c"
    if "c \<in> set run" for c
    using int_text_digit [OF each [OF that]] by (simp_all add: f_def)
  have wide: "int_text E run = map f run" if "\<not> list_all is_ascii run"
    using that by (simp add: int_text_def f_def)
  show "list_all ascii_digit (int_text E run)"
  proof (cases "list_all is_ascii run")
    case True
    then have "ascii_digit c" if "c \<in> set run" for c
      using each [OF that] that by (simp add: list_all_iff is_digit_def)
    then show ?thesis using True by (simp add: int_text_def list_all_iff)
  next
    case False
    show ?thesis using digit by (simp add: wide [OF False] list_all_iff)
  qed
  show "length (int_text E run) = length run" by (simp add: int_text_def)
  show "decimal E (int_text E run) = decimal E run"
  proof (cases "list_all is_ascii run")
    case True
    then show ?thesis by (simp add: int_text_def)
  next
    case False
    show ?thesis
      unfolding wide [OF False] decimal_def using same by (rule decimal_map)
  qed
qed

lemma digits_ok_all: "t \<noteq> [] \<Longrightarrow> list_all ascii_digit t \<Longrightarrow> digits_ok t"
  by (induction t rule: digits_ok.induct) (auto simp: ascii_digit_plain)

text \<open>\<open>int\<close> on a run of digits: the number it denotes, unless the run is too long.\<close>

lemma int_of_text_run:
  assumes "run \<noteq> []" and "list_all (is_digit E) run"
  shows "int_of_text E run =
    (if too_many_digits E (length run) then None else Some (int (decimal E run)))"
proof -
  define t where "t = int_text E run"
  have digits: "list_all ascii_digit t" and len: "length t = length run"
    and val: "decimal E t = decimal E run"
    using int_text_digits [OF assms(2)] by (simp_all add: t_def)
  from len assms(1) have some: "t \<noteq> []" by auto
  then have first: "ascii_digit (hd t)" and final: "ascii_digit (last t)"
    using digits by (simp_all add: list_all_iff)
  have front: "dropWhile c_space t = t"
    using some first by (cases t) (simp_all add: ascii_digit_plain)
  have rear: "dropWhile c_space (rev t) = rev t"
  proof (cases "rev t")
    case Nil
    then show ?thesis by simp
  next
    case (Cons c cs)
    then have "last t = c" using some by (simp add: last_rev [symmetric] del: last_rev)
    with final Cons show ?thesis by (simp add: ascii_digit_plain)
  qed
  have strip: "rev (dropWhile c_space (rev (dropWhile c_space t))) = t"
    by (simp add: front rear)
  have sign: "hd t \<noteq> CHR ''-''" "hd t \<noteq> CHR ''+''"
    using first by (simp_all add: ascii_digit_plain)
  have all: "filter ascii_digit t = t"
    using digits by (simp add: list_all_iff)
  have ok: "digits_ok t" using some digits by (rule digits_ok_all)
  show ?thesis
    unfolding int_of_text_def t_def [symmetric] strip Let_def
    using sign ok by (simp add: all len val)
qed

lemmas int_demo_defs = int_of_text_def int_text_def c_space_def is_ascii_def ascii_digit_def
  is_digit_def is_space_def digit_char_def decimal_def digit_val_def too_many_digits_def
  demo_env_def Let_def

text \<open>
  \<open>int\<close> on some texts: blanks around the digits, a sign and single underscores are
  read; the separators 0x1C to 0x1F, which \<open>strip\<close> removes, are not; a digit and a blank
  beyond ASCII are read; a text with too many digits is refused.
\<close>

lemma int_of_text_samples:
  "int_of_text demo_env '' 12 '' = Some 12"
  "int_of_text demo_env ''-7'' = Some (- 7)"
  "int_of_text demo_env ''1_000'' = Some 1000"
  "int_of_text demo_env ''1__0'' = None"
  "int_of_text demo_env [CHR 0x1C, CHR ''5''] = None"
  "int_of_text demo_env [CHR 0xA0, CHR ''5''] = Some 5"
  "int_of_text demo_env [CHR 0xA3, CHR ''4''] = Some 34"
  "int_of_text demo_env [CHR 0x1C, CHR ''5'', CHR 0xA0] = None"
  "int_of_text demo_env [] = None"
  by (simp_all add: int_demo_defs)

lemma int_of_text_long:
  assumes "0 < max_str_digits E" and "max_str_digits E < n"
  shows "int_of_text E (replicate n (CHR ''1'')) = None"
proof -
  let ?s = "replicate n (CHR ''1'')"
  from assms obtain m where n: "n = Suc m" by (cases n) auto
  have ascii: "int_text E ?s = ?s"
    by (simp add: int_text_def list_all_iff is_ascii_def)
  have strip: "rev (dropWhile c_space (rev (dropWhile c_space ?s))) = ?s"
    by (simp add: c_space_def dropWhile_replicate)
  have hd: "?s \<noteq> []" "hd ?s = CHR ''1''" by (simp_all add: n)
  have digits: "length (filter ascii_digit ?s) = n"
    by (simp add: ascii_digit_def)
  show ?thesis
    unfolding int_of_text_def ascii strip Let_def
    using assms hd by (simp add: digits too_many_digits_def)
qed

lemma team_size_long_run:
  assumes "0 < max_str_digits E" and "max_str_digits E < n"
  shows "team_size E (PStr (replicate n (CHR ''1''))) = Inl ValueError"
proof -
  let ?s = "replicate n (CHR ''1'')"
  from assms obtain m where n: "n = Suc m" by (cases n) auto
  have digit: "is_digit E (CHR ''1'')"
    by (simp add: is_digit_def is_ascii_def ascii_digit_def)
  have run: "first_digit_run E ?s = ?s"
    using digit by (simp add: first_digit_run_def dropWhile_replicate takeWhile_replicate)
  have some: "?s \<noteq> []" by (simp add: n)
  show ?thesis
    using some by (simp add: team_size_def run int_of_text_long [OF assms])
qed

text \<open>
  C3, as the code has it. For the \<open>i\<close>-th group of a successful reply of \<open>get_groups\<close>:
  \<open>memberCount\<close> is the number of members; \<open>maxMembers\<close> is null when
  \<open>preferred_team_size\<close> is absent or empty in Python's sense, the number denoted by the
  first digit run of its text when there is one, and otherwise what \<open>int\<close> makes of the
  value, null when \<open>int\<close> fails; \<open>isFull\<close> is true exactly when \<open>maxMembers\<close> is a number
  other than 0 and \<open>memberCount\<close> is at least that number. The digits are those of
  \<open>re\<close> and \<open>int\<close>: the ASCII ones and the decimal digits beyond ASCII.
\<close>

theorem get_groups_team_size:
  assumes "status_of (get_groups E st req) = 200"
    and "i < length (order_by_desc E ''createdAt'' (groups st))"
    and "order_by_desc E ''createdAt'' (groups st) ! i = (gid, g)"
  shows "\<exists>ms maxsize.
      py_iter (dict_get g ''members'' (PList [])) = Inr ms
    \<and> listed_group_field (get_groups E st req) i ''memberCount'' = Some (PInt (int (length ms)))
    \<and> listed_group_field (get_groups E st req) i ''maxMembers'' = Some maxsize
    \<and> (\<not> truthy (dict_get g ''preferred_team_size'' PNone) \<longrightarrow> maxsize = PNone)
    \<and> (\<forall>run. truthy (dict_get g ''preferred_team_size'' PNone)
          \<and> first_run_of E (py_str E (dict_get g ''preferred_team_size'' PNone)) run
          \<longrightarrow> maxsize = PInt (int (decimal E run)))
    \<and> (truthy (dict_get g ''preferred_team_size'' PNone)
          \<and> \<not> list_ex (is_digit E) (py_str E (dict_get g ''preferred_team_size'' PNone))
          \<longrightarrow> maxsize = (case py_int E (dict_get g ''preferred_team_size'' PNone) of
                           Inl e \<Rightarrow> PNone | Inr n \<Rightarrow> PInt n))
    \<and> listed_group_field (get_groups E st req) i ''isFull'' =
        Some (PBool (case maxsize of PInt n \<Rightarrow> n \<noteq> 0 \<and> n \<le> int (length ms) | _ \<Rightarrow> False))"
proof -
  let ?stream = "order_by_desc E ''createdAt'' (groups st)"
  let ?pts = "dict_get g ''preferred_team_size'' PNone"
  from assms(1) obtain userid entries where
    entries: "collect (group_entry E userid) ?stream = Inr entries"
    and reply: "get_groups E st req =
      Inr (json_obj [(''success'', PBool True), (''groups'', PList entries)], 200)"
    by (auto simp: get_groups_def status_of_def split: sum.splits if_splits option.splits)
  have all: "list_all2 (\<lambda>x y. group_entry E userid x = Inr y) ?stream entries"
    using entries by (rule collect_Inr)
  then have len: "length entries = length ?stream" by (simp add: list_all2_lengthD)
  have entry: "group_entry E userid (gid, g) = Inr (entries ! i)"
    using list_all2_nthD [OF all assms(2)] assms(3) by simp
  then obtain ms where ms: "py_iter (dict_get g ''members'' (PList [])) = Inr ms"
    by (auto simp: group_entry_def split: sum.splits)
  obtain maxsize where maxsize: "team_size E ?pts = Inr maxsize"
    using entry ms by (auto simp: group_entry_def Let_def split: sum.splits)
  obtain created where created: "iso_or_now E (dict_get g ''createdAt'' PNone) = Inr created"
    using entry ms maxsize by (auto simp: group_entry_def Let_def split: sum.splits)
  have field: "listed_group_field (get_groups E st req) i k =
      (case entries ! i of PDict e \<Rightarrow> fmlookup e k | _ \<Rightarrow> None)" for k
    using assms(2) len by (simp add: reply listed_group_field_def json_obj_def)
  have count: "listed_group_field (get_groups E st req) i ''memberCount'' = Some (PInt (int (length ms)))"
    using entry [symmetric] ms maxsize created
    by (simp add: field group_entry_def Let_def json_obj_def)
  have maxm: "listed_group_field (get_groups E st req) i ''maxMembers'' = Some maxsize"
    using entry [symmetric] ms maxsize created
    by (simp add: field group_entry_def Let_def json_obj_def)
  have full: "listed_group_field (get_groups E st req) i ''isFull'' =
      Some (PBool (is_full maxsize (length ms)))"
    using entry [symmetric] ms maxsize created
    by (simp add: field group_entry_def Let_def json_obj_def)
  have full_eq: "is_full maxsize (length ms) =
      (case maxsize of PInt n \<Rightarrow> n \<noteq> 0 \<and> n \<le> int (length ms) | _ \<Rightarrow> False)"
    by (cases maxsize) (auto simp: is_full_def)
  have c1: "\<not> truthy ?pts \<longrightarrow> maxsize = PNone"
    using maxsize by (auto simp: team_size_def)
  have c2: "\<forall>run. truthy ?pts \<and> first_run_of E (py_str E ?pts) run
      \<longrightarrow> maxsize = PInt (int (decimal E run))"
  proof (intro allI impI)
    fix run
    assume a: "truthy ?pts \<and> first_run_of E (py_str E ?pts) run"
    then have "first_digit_run E (py_str E ?pts) = run" by (simp add: first_digit_run_eq)
    moreover have "run \<noteq> []" using a by (auto simp: first_run_of_def)
    moreover have "list_all (is_digit E) run" using a by (auto simp: first_run_of_def)
    ultimately show "maxsize = PInt (int (decimal E run))"
      using a maxsize
      by (auto simp: team_size_def Let_def int_of_text_run split: if_splits option.splits)
  qed
  have c3: "truthy ?pts \<and> \<not> list_ex (is_digit E) (py_str E ?pts)
      \<longrightarrow> maxsize = (case py_int E ?pts of Inl e \<Rightarrow> PNone | Inr n \<Rightarrow> PInt n)"
    using maxsize by (auto simp: team_size_def Let_def first_digit_run_none)
  from ms count maxm c1 c2 c3 full full_eq show ?thesis by auto
qed

lemma demo_env_sel:
  "order_by_desc demo_env f c = c"
  "isoformat demo_env t = CHR ''T'' # str_of_nat t"
  "iso_now demo_env = ''2023-11-14T22:13:20''"
  by (simp_all add: demo_env_def)

lemmas list_demo_defs = get_groups_def group_entry_def py_iter_def iso_or_now_def list_request_def
  group_store_def group_doc_def demo_env_sel arg_get_def dict_get_def status_of_def Let_def

lemmas digit_demo_defs = first_digit_run_def is_digit_def is_ascii_def ascii_digit_def
  decimal_def digit_val_def demo_env_def

lemma demo_team_size:
  "team_size demo_env (PStr ''4 members'') = Inr (PInt 4)"
  "team_size demo_env (PStr [CHR 0xA3]) = Inr (PInt 3)"
  "team_size demo_env (PStr ''0'') = Inr (PInt 0)"
  "team_size demo_env (PStr []) = Inr PNone"
  by (simp_all add: team_size_def first_digit_run_def int_demo_defs)

theorem get_groups_team_size_witness:
  "first_run_of demo_env ''4 members'' ''4''
   \<and> listed_group_field (get_groups demo_env
        (group_store ''4 members'' [PStr ''u1'', PStr ''u2'', PStr ''u3'', PStr ''u4'']) list_request)
        0 ''maxMembers'' = Some (PInt 4)
   \<and> listed_group_field (get_groups demo_env
        (group_store ''4 members'' [PStr ''u1'', PStr ''u2'', PStr ''u3'', PStr ''u4'']) list_request)
        0 ''isFull'' = Some (PBool True)
   \<and> listed_group_field (get_groups demo_env
        (group_store ''4 members'' [PStr ''u1'', PStr ''u2'', PStr ''u3'']) list_request)
        0 ''isFull'' = Some (PBool False)
   \<and> listed_group_field (get_groups demo_env (group_store [] [PStr ''u1'']) list_request)
        0 ''maxMembers'' = Some PNone
   \<and> listed_group_field (get_groups demo_env (group_store [] [PStr ''u1'']) list_request)
        0 ''isFull'' = Some (PBool False)
   \<and> first_run_of demo_env [CHR 0xA3] [CHR 0xA3]
   \<and> listed_group_field (get_groups demo_env
        (group_store [CHR 0xA3] [PStr ''u1'', PStr ''u2'', PStr ''u3'']) list_request)
        0 ''maxMembers'' = Some (PInt 3)
   \<and> listed_group_field (get_groups demo_env
        (group_store [CHR 0xA3] [PStr ''u1'', PStr ''u2'', PStr ''u3'']) list_request)
        0 ''isFull'' = Some (PBool True)"
proof -
  have run: "first_run_of demo_env ''4 members'' ''4''"
    unfolding first_run_of_def
    by (rule exI [of _ "[]"], rule exI [of _ "'' members''"]) (simp add: digit_demo_defs)
  have wide: "first_run_of demo_env [CHR 0xA3] [CHR 0xA3]"
    unfolding first_run_of_def
    by (rule exI [of _ "[]"], rule exI [of _ "[]"]) (simp add: digit_demo_defs)
  have four: "int (decimal demo_env ''4'') = 4" and three: "int (decimal demo_env [CHR 0xA3]) = 3"
    by (simp_all add: digit_demo_defs)
  have ok4: "status_of (get_groups demo_env (group_store ''4 members'' ms) list_request) = 200"
    and ok0: "status_of (get_groups demo_env (group_store [] ms) list_request) = 200"
    and ok3: "status_of (get_groups demo_env (group_store [CHR 0xA3] ms) list_request) = 200"
    for ms
    by (simp_all add: list_demo_defs demo_team_size)
  have i: "0 < length (order_by_desc demo_env ''createdAt'' (groups (group_store team ms)))"
    and g: "order_by_desc demo_env ''createdAt'' (groups (group_store team ms)) ! 0
        = (''g1'', group_doc ''u1'' team ms)" for team ms
    by (simp_all add: demo_env_sel group_store_def)
  have members: "py_iter (dict_get (group_doc ''u1'' team ms) ''members'' (PList [])) = Inr ms"
    and team: "dict_get (group_doc ''u1'' team ms) ''preferred_team_size'' PNone = PStr team"
    for team ms
    by (simp_all add: group_doc_def dict_get_def py_iter_def)
  let ?four = "[PStr ''u1'', PStr ''u2'', PStr ''u3'', PStr ''u4'']"
  let ?three = "[PStr ''u1'', PStr ''u2'', PStr ''u3'']"
  from get_groups_team_size [OF ok4 i g, of ?four] run four
  have r4: "listed_group_field (get_groups demo_env (group_store ''4 members'' ?four) list_request)
        0 ''maxMembers'' = Some (PInt 4)
      \<and> listed_group_field (get_groups demo_env (group_store ''4 members'' ?four) list_request)
        0 ''isFull'' = Some (PBool True)"
    by (auto simp: members team)
  from get_groups_team_size [OF ok4 i g, of ?three] run four
  have r3: "listed_group_field (get_groups demo_env (group_store ''4 members'' ?three) list_request)
        0 ''isFull'' = Some (PBool False)"
    by (auto simp: members team)
  from get_groups_team_size [OF ok0 i g, of "[PStr ''u1'']"]
  have r0: "listed_group_field (get_groups demo_env (group_store [] [PStr ''u1'']) list_request)
        0 ''maxMembers'' = Some PNone
      \<and> listed_group_field (get_groups demo_env (group_store [] [PStr ''u1'']) list_request)
        0 ''isFull'' = Some (PBool False)"
    by (auto simp: members team)
  from get_groups_team_size [OF ok3 i g, of ?three] wide three
  have rw: "listed_group_field (get_groups demo_env (group_store [CHR 0xA3] ?three) list_request)
        0 ''maxMembers'' = Some (PInt 3)
      \<and> listed_group_field (get_groups demo_env (group_store [CHR 0xA3] ?three) list_request)
        0 ''isFull'' = Some (PBool True)"
    by (auto simp: members team)
  show ?thesis
    using run r4 r3 r0 wide rw by (intro conjI) (simp_all only: simp_thms)
qed

text \<open>
  Against C3 as stated: a group whose \<open>preferred_team_size\<close> is the text \<open>0\<close> and that
  has one member. \<open>maxMembers\<close> is known, it is 0, and \<open>memberCount\<close> is 1, at least
  \<open>maxMembers\<close>; yet \<open>isFull\<close> is false.
\<close>

theorem get_groups_size_zero_not_full:
  "listed_group_field (get_groups demo_env (group_store ''0'' [PStr ''u1'']) list_request)
      0 ''maxMembers'' = Some (PInt 0)
   \<and> listed_group_field (get_groups demo_env (group_store ''0'' [PStr ''u1'']) list_request)
      0 ''memberCount'' = Some (PInt 1)
   \<and> (0::int) \<le> 1
   \<and> listed_group_field (get_groups demo_env (group_store ''0'' [PStr ''u1'']) list_request)
      0 ''isFull'' = Some (PBool False)"
  by (simp add: list_demo_defs listed_group_field_def json_obj_def is_full_def demo_team_size)

lemma take_min_length: "take (min a (length ys)) ys = take a ys"
  by (cases "a \<le> length ys") (simp_all add: min_def)

lemma take_eq_if:
  assumes "min a (length ys) = min b (length ys)"
  shows "take a ys = take b ys"
proof -
  have "take a ys = take (min a (length ys)) ys" by (simp only: take_min_length)
  also have "\<dots> = take (min b (length ys)) ys" by (simp only: assms)
  also have "\<dots> = take b ys" by (simp only: take_min_length)
  finally show ?thesis .
qed

lemma py_slice_page:
  assumes "0 \<le> skip" and "0 \<le> limit"
  shows "py_slice xs skip (skip + limit) = take (nat limit) (drop (nat skip) xs)"
proof (cases "skip < int (length xs)")
  case True
  have lo: "min skip (int (length xs)) = skip" using True by simp
  have "min (nat (min (skip + limit) (int (length xs)) - skip)) (length (drop (nat skip) xs))
      = min (nat limit) (length (drop (nat skip) xs))"
    using True assms by (simp add: min_def) linarith
  then have "take (nat (min (skip + limit) (int (length xs)) - skip)) (drop (nat skip) xs)
      = take (nat limit) (drop (nat skip) xs)"
    by (rule take_eq_if)
  with assms lo show ?thesis by (simp add: py_slice_def Let_def)
next
  case False
  with assms show ?thesis
    by (simp add: py_slice_def Let_def min_def)
qed

lemma pages_ceiling:
  assumes "0 < l"
  shows "(t + l - 1) div l = \<lceil>real_of_int t / real_of_int l\<rceil>"
proof -
  define q where "q = (t + l - 1) div l"
  define m where "m = (t + l - 1) mod l"
  have eq: "t + l - 1 = l * q + m" by (simp add: q_def m_def)
  have m: "0 \<le> m" "m < l" using assms by (simp_all add: m_def)
  have up: "t \<le> q * l" using eq m by (simp add: mult.commute) 
  have lo: "(q - 1) * l < t" using eq m by (simp add: algebra_simps)
  have l: "0 < real_of_int l" using assms by simp
  have "real_of_int t \<le> real_of_int (q * l)" using up by linarith
  then have a: "real_of_int t / real_of_int l \<le> real_of_int q"
    using l by (simp add: pos_divide_le_eq)
  have "real_of_int ((q - 1) * l) < real_of_int t" using lo by linarith
  then have "(real_of_int q - 1) * real_of_int l < real_of_int t" by simp
  then have b: "real_of_int q - 1 < real_of_int t / real_of_int l"
    using l by (simp only: pos_less_divide_eq)
  from b a have "\<lceil>real_of_int t / real_of_int l\<rceil> = q" by (rule ceiling_unique)
  then show ?thesis by (simp add: q_def)
qed

lemma int_of_text_4301: "int_of_text demo_env (replicate 4301 (CHR ''1'')) = None"
  by (rule int_of_text_long) (simp_all add: demo_env_def)

lemma get_questions_bad_page:
  "status_of (get_questions demo_env twelve_store (page_args [CHR 0x1C, CHR ''5''] ''5'')) = 500"
  "status_of (get_questions demo_env twelve_store
     (page_args (replicate 4301 (CHR ''1'')) ''5'')) = 500"
  by (simp_all add: get_questions_def arg_get_def page_args_def py_int_def status_of_def
      int_of_text_samples int_of_text_4301)

lemma py_int_param:
  "int_param E args k dflt = Some n \<Longrightarrow> py_int E (arg_get args k (PInt dflt)) = Inr n"
  by (auto simp: int_param_def arg_get_def py_int_def split: option.splits)

lemma format_question_id:
  "format_question E (qid, q) = Inr r \<Longrightarrow> question_id_of r = Some (PStr qid)"
  by (auto simp: format_question_def question_id_of_def json_obj_def split: sum.splits)

lemma collect_question_ids:
  "collect (format_question E) xs = Inr qs \<Longrightarrow>
   map question_id_of qs = map (\<lambda>(qid, q). Some (PStr qid)) xs"
proof (induction xs arbitrary: qs)
  case Nil
  then show ?case by simp
next
  case (Cons x xs)
  obtain qid q where x: "x = (qid, q)" by (cases x)
  from Cons.prems obtain r rs where r: "format_question E (qid, q) = Inr r"
    and rs: "collect (format_question E) xs = Inr rs" and qs: "qs = r # rs"
    by (auto simp: x split: sum.splits)
  show ?case using Cons.IH [OF rs] format_question_id [OF r] by (simp add: qs x)
qed

text \<open>
  C2. With \<open>page\<close> and \<open>limit\<close> absent or integers as text: the limit in force is the
  requested one clamped to 1..100 (5 when absent) and the page in force is the requested
  one, at least 1 (1 when absent). The questions shown are those of the slice of
  \<open>limit\<close> documents starting at \<open>(page - 1) * limit\<close> of everything the query streams:
  the reply is 200 with these documents formatted, in order and under their ids, and a
  pagination block with the page and the limit in force, the number of documents
  streamed, and as page count the ceiling of that number over the limit, 1 when nothing
  is streamed. When a document of the slice cannot be formatted the handler raises.
\<close>

theorem get_questions_pagination:
  assumes "int_param E args ''page'' 1 = Some p" and "int_param E args ''limit'' 5 = Some l"
  shows "let limit = min 100 (max 1 l);
             page = max 1 p;
             everything = all_questions E st args;
             shown = take (nat limit) (drop (nat ((page - 1) * limit)) everything)
         in (\<forall>e. collect (format_question E) shown = Inl e \<longrightarrow> get_questions E st args = Inl e)
          \<and> (\<forall>qs. collect (format_question E) shown = Inr qs \<longrightarrow>
                get_questions E st args =
                  Inr (json_obj
                    [(''success'', PBool True),
                     (''questions'', PList qs),
                     (''pagination'', json_obj
                        [(''currentPage'', PInt page),
                         (''totalPages'', PInt (if everything = [] then 1
                            else \<lceil>real (length everything) / real_of_int limit\<rceil>)),
                         (''totalItems'', PInt (int (length everything))),
                         (''itemsPerPage'', PInt limit)])], 200)
                \<and> map question_id_of qs = map (\<lambda>(qid, q). Some (PStr qid)) shown)"
proof -
  let ?limit = "min 100 (max 1 l)"
  let ?page = "max 1 p"
  let ?everything = "all_questions E st args"
  let ?shown = "take (nat ?limit) (drop (nat ((?page - 1) * ?limit)) ?everything)"
  have limit: "0 < ?limit" and page: "0 \<le> (?page - 1) * ?limit"
    by simp_all
  have slice: "py_slice ?everything ((?page - 1) * ?limit) ((?page - 1) * ?limit + ?limit) = ?shown"
    using page limit by (simp only: py_slice_page)
  have pages: "(if 0 < int (length ?everything)
        then (int (length ?everything) + ?limit - 1) div ?limit else 1)
      = (if ?everything = [] then 1 else \<lceil>real (length ?everything) / real_of_int ?limit\<rceil>)"
    using pages_ceiling [OF limit, of "int (length ?everything)"] by simp
  have ids: "map question_id_of qs = map (\<lambda>(qid, q). Some (PStr qid)) ?shown"
    if "collect (format_question E) ?shown = Inr qs" for qs
    using that by (rule collect_question_ids)
  have run: "get_questions E st args =
      (case collect (format_question E) ?shown of
         Inl e \<Rightarrow> Inl e
       | Inr qs \<Rightarrow>
           Inr (json_obj
             [(''success'', PBool True),
              (''questions'', PList qs),
              (''pagination'', json_obj
                 [(''currentPage'', PInt ?page),
                  (''totalPages'', PInt (if ?everything = [] then 1
                     else \<lceil>real (length ?everything) / real_of_int ?limit\<rceil>)),
                  (''totalItems'', PInt (int (length ?everything))),
                  (''itemsPerPage'', PInt ?limit)])], 200))"
    unfolding get_questions_def py_int_param [OF assms(1)] py_int_param [OF assms(2)]
      Let_def sum.case slice pages ..
  show ?thesis
    unfolding Let_def
  proof (intro conjI allI impI)
    fix e
    assume "collect (format_question E) ?shown = Inl e"
    then show "get_questions E st args = Inl e" by (simp add: run)
  next
    fix qs
    assume "collect (format_question E) ?shown = Inr qs"
    then show "get_questions E st args =
        Inr (json_obj
          [(''success'', PBool True),
           (''questions'', PList qs),
           (''pagination'', json_obj
              [(''currentPage'', PInt ?page),
               (''totalPages'', PInt (if ?everything = [] then 1
                  else \<lceil>real (length ?everything) / real_of_int ?limit\<rceil>)),
               (''totalItems'', PInt (int (length ?everything))),
               (''itemsPerPage'', PInt ?limit)])], 200)"
      by (simp add: run)
  next
    fix qs
    assume "collect (format_question E) ?shown = Inr qs"
    then show "map question_id_of qs = map (\<lambda>(qid, q). Some (PStr qid)) ?shown"
      by (rule ids)
  qed
qed

lemma collect_total:
  "(\<And>x. x \<in> set xs \<Longrightarrow> \<exists>y. f x = Inr y) \<Longrightarrow> \<exists>ys. collect f xs = Inr ys"
proof (induction xs)
  case Nil
  show ?case by simp
next
  case (Cons x xs)
  from Cons.prems [of x] obtain y where "f x = Inr y" by auto
  moreover from Cons obtain ys where "collect f xs = Inr ys" by auto
  ultimately show ?case by simp
qed

lemma format_plain_question: "\<exists>r. format_question demo_env (qid, q1_doc []) = Inr r"
  by (simp add: format_question_def q1_doc_def dict_get_def py_iter_def py_int_def
      iso_or_now_def)

lemma demo_int_of_text:
  "int_of_text demo_env ''1'' = Some 1" "int_of_text demo_env ''3'' = Some 3"
  "int_of_text demo_env ''5'' = Some 5"
  by (simp_all add: int_of_text_def int_text_def c_space_def is_ascii_def ascii_digit_def
      decimal_def digit_val_def too_many_digits_def demo_env_def Let_def)

lemma demo_all_questions:
  "all_questions demo_env twelve_store (page_args pg ''5'') = map (\<lambda>i. (i, q1_doc [])) question_ids"
  by (simp add: all_questions_def page_args_def arg_get_def py_strip_def py_lower_def
      is_ascii_def demo_env_def twelve_store_def lower_char_def Let_def)

lemma demo_formats:
  assumes "set xs \<subseteq> set (map (\<lambda>i. (i, q1_doc [])) question_ids)"
  shows "\<exists>qs. collect (format_question demo_env) xs = Inr qs"
proof (rule collect_total)
  fix x
  assume "x \<in> set xs"
  with assms obtain i where "x = (i, q1_doc [])" by auto
  then show "\<exists>y. format_question demo_env x = Inr y" by (simp add: format_plain_question)
qed

theorem get_questions_pagination_witness:
  "int_param demo_env (page_args ''1'' ''5'') ''page'' 1 = Some 1
   \<and> int_param demo_env (page_args ''1'' ''5'') ''limit'' 5 = Some 5
   \<and> int_param demo_env (page_args ''3'' ''5'') ''page'' 1 = Some 3
   \<and> length (all_questions demo_env twelve_store (page_args ''1'' ''5'')) = 12
   \<and> (\<exists>qs. get_questions demo_env twelve_store (page_args ''1'' ''5'') =
          Inr (json_obj
            [(''success'', PBool True),
             (''questions'', PList qs),
             (''pagination'', json_obj
                [(''currentPage'', PInt 1), (''totalPages'', PInt 3),
                 (''totalItems'', PInt 12), (''itemsPerPage'', PInt 5)])], 200)
        \<and> map question_id_of qs =
            [Some (PStr ''q01''), Some (PStr ''q02''), Some (PStr ''q03''), Some (PStr ''q04''),
             Some (PStr ''q05'')])
   \<and> (\<exists>qs. get_questions demo_env twelve_store (page_args ''3'' ''5'') =
          Inr (json_obj
            [(''success'', PBool True),
             (''questions'', PList qs),
             (''pagination'', json_obj
                [(''currentPage'', PInt 3), (''totalPages'', PInt 3),
                 (''totalItems'', PInt 12), (''itemsPerPage'', PInt 5)])], 200)
        \<and> map question_id_of qs = [Some (PStr ''q11''), Some (PStr ''q12'')])"
proof -
  let ?docs = "map (\<lambda>i. (i, q1_doc [])) question_ids"
  have p1: "int_param demo_env (page_args ''1'' ''5'') ''page'' 1 = Some 1"
    and p3: "int_param demo_env (page_args ''3'' ''5'') ''page'' 1 = Some 3"
    and l5: "int_param demo_env (page_args pg ''5'') ''limit'' 5 = Some 5" for pg
    by (simp_all add: int_param_def page_args_def demo_int_of_text)
  have n: "length (all_questions demo_env twelve_store (page_args ''1'' ''5'')) = 12"
    by (simp add: demo_all_questions question_ids_def)
  have limit: "min 100 (max 1 (5::int)) = 5" and page1: "max 1 (1::int) = 1"
    and page3: "max 1 (3::int) = 3"
    by simp_all
  have pages: "\<lceil>real (length ?docs) / real_of_int 5\<rceil> = 3" and some: "?docs \<noteq> []"
    and len: "int (length ?docs) = 12"
    by (simp_all add: question_ids_def)
  have shown1: "take (nat 5) (drop (nat ((1 - 1) * 5)) ?docs) = take 5 ?docs"
    and shown3: "take (nat 5) (drop (nat ((3 - 1) * 5)) ?docs) = drop 10 ?docs"
    by (simp_all add: question_ids_def)
  have ids1: "map (\<lambda>(qid, q). Some (PStr qid)) (take 5 ?docs) =
      [Some (PStr ''q01''), Some (PStr ''q02''), Some (PStr ''q03''), Some (PStr ''q04''),
       Some (PStr ''q05'')]"
    and ids3: "map (\<lambda>(qid, q). Some (PStr qid)) (drop 10 ?docs) =
      [Some (PStr ''q11''), Some (PStr ''q12'')]"
    by (simp_all add: question_ids_def)
  from demo_formats [OF set_take_subset, of 5]
  obtain qs1 where qs1: "collect (format_question demo_env) (take 5 ?docs) = Inr qs1" ..
  from demo_formats [OF set_drop_subset, of 10]
  obtain qs3 where qs3: "collect (format_question demo_env) (drop 10 ?docs) = Inr qs3" ..
  note t1 = get_questions_pagination [OF p1 l5, of twelve_store,
      unfolded Let_def demo_all_questions limit page1 shown1 pages len if_not_P [OF some]]
  note t3 = get_questions_pagination [OF p3 l5, of twelve_store,
      unfolded Let_def demo_all_questions limit page3 shown3 pages len if_not_P [OF some]]
  from t1 qs1 have r1: "get_questions demo_env twelve_store (page_args ''1'' ''5'') =
        Inr (json_obj
          [(''success'', PBool True),
           (''questions'', PList qs1),
           (''pagination'', json_obj
              [(''currentPage'', PInt 1), (''totalPages'', PInt 3),
               (''totalItems'', PInt 12), (''itemsPerPage'', PInt 5)])], 200)
      \<and> map question_id_of qs1 = map (\<lambda>(qid, q). Some (PStr qid)) (take 5 ?docs)"
    by blast
  from t3 qs3 have r3: "get_questions demo_env twelve_store (page_args ''3'' ''5'') =
        Inr (json_obj
          [(''success'', PBool True),
           (''questions'', PList qs3),
           (''pagination'', json_obj
              [(''currentPage'', PInt 3), (''totalPages'', PInt 3),
               (''totalItems'', PInt 12), (''itemsPerPage'', PInt 5)])], 200)
      \<and> map question_id_of qs3 = map (\<lambda>(qid, q). Some (PStr qid)) (drop 10 ?docs)"
    by blast
  have e1: "\<exists>qs. get_questions demo_env twelve_store (page_args ''1'' ''5'') =
          Inr (json_obj
            [(''success'', PBool True),
             (''questions'', PList qs),
             (''pagination'', json_obj
                [(''currentPage'', PInt 1), (''totalPages'', PInt 3),
                 (''totalItems'', PInt 12), (''itemsPerPage'', PInt 5)])], 200)
        \<and> map question_id_of qs =
            [Some (PStr ''q01''), Some (PStr ''q02''), Some (PStr ''q03''), Some (PStr ''q04''),
             Some (PStr ''q05'')]"
    using r1 unfolding ids1 by (rule exI [of _ qs1])
  have e3: "\<exists>qs. get_questions demo_env twelve_store (page_args ''3'' ''5'') =
          Inr (json_obj
            [(''success'', PBool True),
             (''questions'', PList qs),
             (''pagination'', json_obj
                [(''currentPage'', PInt 3), (''totalPages'', PInt 3),
                 (''totalItems'', PInt 12), (''itemsPerPage'', PInt 5)])], 200)
        \<and> map question_id_of qs = [Some (PStr ''q11''), Some (PStr ''q12'')]"
    using r3 unfolding ids3 by (rule exI [of _ qs3])
  show ?thesis by (intro conjI p1 l5 p3 n e1 e3)
qed

end
